theory Spec2Isabelle
  imports Complex_Main "HOL-Library.Sublist"
begin

section \<open>Student fee manager: data model\<close>

text \<open>
  A cell of the data frame. The program reads its tables from spreadsheets, so a cell
  holds text, a whole number (a Python \<open>int\<close>), or the missing value NaN (an empty
  spreadsheet cell). Floating-point cells other than NaN are outside the model. Strings
  are ASCII.
\<close>

datatype cell = Text string | Number int | NaN

text \<open>Python's truth value of a cell: \<open>bool(nan)\<close> is \<open>True\<close>.\<close>

fun truthy :: "cell \<Rightarrow> bool" where
  "truthy (Text s) = (s \<noteq> [])"
| "truthy (Number n) = (n \<noteq> 0)"
| "truthy NaN = True"

text \<open>\<open>pd.isna\<close> on a cell.\<close>

fun isna :: "cell \<Rightarrow> bool" where
  "isna NaN = True"
| "isna _ = False"

text \<open>
  A field counts as empty when the program treats it as not set: it is falsy (the test
  of \<open>_recalculate_business_rules\<close> and \<open>send_reminders\<close>) or it is missing
  (\<open>refresh_table\<close> and \<open>_build_pdf\<close> show a missing value as the empty string).
\<close>

definition is_empty :: "cell \<Rightarrow> bool" where
  "is_empty c = (isna c \<or> \<not> truthy c)"

text \<open>One row of a table in the strict format: the ten columns, in order.\<close>

record student =
  Name :: cell
  Mobile_Number :: cell
  Year :: cell
  Dept :: cell
  Fee_Amount :: cell
  Fee_Paid :: cell
  Balance :: cell
  Due_Date :: cell
  Email :: cell
  Fee_Paid_On :: cell

type_synonym table = "student list"

definition STRICT_COLUMNS :: "string list" where
  "STRICT_COLUMNS =
     [''Name'', ''Mobile Number'', ''Year'', ''Dept'',
      ''Fee Amount'', ''Fee Paid'', ''Balance'',
      ''Due Date'', ''Email'', ''Fee Paid On'']"

text \<open>
  An operation that stops early (a cancelled dialog, a warning box, an uncaught
  exception) returns the reason and leaves the state as it was.
\<close>

datatype error =
    Cancelled
  | Read_failed
  | Invalid_format
  | Malformed_frame
  | No_file
  | No_row_selected
  | IndexError
  | KeyError
  | ValueError
  | IntCastingNaNError
  | Date_parse_failed
  | Year_not_numeric
  | Pattern_not_modelled

section \<open>Numeric columns\<close>

text \<open>
  The integers of a pandas column are signed 64-bit: arithmetic on them wraps around.
\<close>

definition is_int64 :: "int \<Rightarrow> bool" where
  "is_int64 n = (- 9223372036854775808 \<le> n \<and> n \<le> 9223372036854775807)"

definition wrap64 :: "int \<Rightarrow> int" where
  "wrap64 n = (n + 9223372036854775808) mod 18446744073709551616 - 9223372036854775808"

text \<open>
  A numeric column is homogeneous: a column of integers, or a column of floats, whose
  entries are finite values, infinities or NaN.
\<close>

datatype float64 = Fin real | Inf | Nan

datatype numeric = Int_column "int list" | Float_column "float64 list"

text \<open>
  \<open>pd.to_numeric(col, errors='coerce')\<close> converts the column as a whole. A column of
  whole numbers in the 64-bit range is an integer column with the same entries. What
  pandas makes of any other column (text to read, missing values, which turn the column
  into floats and round large integers) is a parameter \<open>num\<close>.
\<close>

fun int64_cell :: "cell \<Rightarrow> bool" where
  "int64_cell (Number n) = is_int64 n"
| "int64_cell _ = False"

fun int_value :: "cell \<Rightarrow> int" where
  "int_value (Number n) = n"
| "int_value _ = 0"

definition to_numeric :: "(cell list \<Rightarrow> numeric) \<Rightarrow> cell list \<Rightarrow> numeric" where
  "to_numeric num col =
     (if list_all int64_cell col then Int_column (map int_value col) else num col)"

text \<open>\<open>fillna(0)\<close>: NaN entries of a float column become 0.\<close>

fun fillna :: "numeric \<Rightarrow> numeric" where
  "fillna (Int_column xs) = Int_column xs"
| "fillna (Float_column fs) =
     Float_column (map (\<lambda>v. case v of Nan \<Rightarrow> Fin 0 | _ \<Rightarrow> v) fs)"

text \<open>
  \<open>astype(int)\<close>. An integer column is cast to signed 64 bits. A float column with a
  non-finite entry raises; a finite entry is truncated toward zero. Where the truncated
  value does not fit in 64 bits the result of the cast depends on the platform and is a
  parameter \<open>ovf\<close>.
\<close>

definition trunc :: "real \<Rightarrow> int" where
  "trunc x = (if x < 0 then \<lceil>x\<rceil> else \<lfloor>x\<rfloor>)"

fun finite_entry :: "float64 \<Rightarrow> bool" where
  "finite_entry (Fin x) = True"
| "finite_entry _ = False"

fun cast_entry :: "(real \<Rightarrow> int) \<Rightarrow> float64 \<Rightarrow> int" where
  "cast_entry ovf (Fin x) = (if is_int64 (trunc x) then trunc x else wrap64 (ovf x))"
| "cast_entry ovf _ = 0"

fun astype_int :: "(real \<Rightarrow> int) \<Rightarrow> numeric \<Rightarrow> error + int list" where
  "astype_int ovf (Int_column xs) = Inr (map wrap64 xs)"
| "astype_int ovf (Float_column fs) =
     (if list_all finite_entry fs then Inr (map (cast_entry ovf) fs)
      else Inl IntCastingNaNError)"

section \<open>Business rules\<close>

text \<open>
  The body of the \<open>iterrows\<close> loop of \<open>_recalculate_business_rules\<close> for one row, given
  the entries \<open>amt\<close> and \<open>paid\<close> of the converted Fee Amount and Fee Paid columns at that
  row. The Balance is their 64-bit difference, clipped at 0. \<open>today\<close> is the value of
  \<open>today_str()\<close>.
\<close>

definition recalculate_row :: "string \<Rightarrow> student \<Rightarrow> int \<Rightarrow> int \<Rightarrow> student" where
  "recalculate_row today r amt paid =
     (let bal = max 0 (wrap64 (amt - paid));
          row = r\<lparr>Fee_Amount := Number amt, Fee_Paid := Number paid, Balance := Number bal\<rparr>
      in if bal = 0
         then (if \<not> truthy (Fee_Paid_On row) then row\<lparr>Fee_Paid_On := Text today\<rparr> else row)
                \<lparr>Due_Date := Text []\<rparr>
         else row\<lparr>Fee_Paid_On := Text []\<rparr>)"

text \<open>
  \<open>_recalculate_business_rules\<close>. The table already has the ten strict columns, so the
  loop that adds missing columns and the column reordering change nothing. The Fee
  Amount column is converted first, then the Fee Paid column; an exception of either
  conversion ends the call, and assigning a column of another length raises a
  \<open>ValueError\<close>.
\<close>

definition recalculate_business_rules ::
  "(cell list \<Rightarrow> numeric) \<Rightarrow> (real \<Rightarrow> int) \<Rightarrow> string \<Rightarrow> table \<Rightarrow> error + table" where
  "recalculate_business_rules num ovf today df =
     (case astype_int ovf (fillna (to_numeric num (map Fee_Amount df))) of
        Inl e \<Rightarrow> Inl e
      | Inr amts \<Rightarrow>
          if length amts \<noteq> length df then Inl ValueError
          else case astype_int ovf (fillna (to_numeric num (map Fee_Paid df))) of
                 Inl e \<Rightarrow> Inl e
               | Inr paids \<Rightarrow>
                   if length paids \<noteq> length df then Inl ValueError
                   else Inr (map (\<lambda>(r, a, p). recalculate_row today r a p)
                               (zip df (zip amts paids))))"

section \<open>Application state and file operations\<close>

text \<open>
  The fields of \<open>FeeManagerApp\<close> that the operations read and write: the open files
  (display name to path and table), the selected file, and the table on display.
\<close>

record app =
  files :: "string \<rightharpoonup> (string \<times> table)"
  selected_name :: "string option"
  current_df_view :: "table option"

text \<open>What \<open>pd.read_excel\<close> returns: the header and the data rows, cell by cell.\<close>

record frame =
  columns :: "string list"
  rows :: "cell list list"

fun student_of_cells :: "cell list \<Rightarrow> student option" where
  "student_of_cells [a, b, c, d, e, f, g, h, i, j] =
     Some \<lparr>Name = a, Mobile_Number = b, Year = c, Dept = d, Fee_Amount = e, Fee_Paid = f,
           Balance = g, Due_Date = h, Email = i, Fee_Paid_On = j\<rparr>"
| "student_of_cells _ = None"

text \<open>\<open>os.path.basename\<close>, with \<open>/\<close> as the separator.\<close>

definition basename :: "string \<Rightarrow> string" where
  "basename path = rev (takeWhile (\<lambda>c. c \<noteq> CHR ''/'') (rev path))"

definition on_select_file :: "string \<Rightarrow> app \<Rightarrow> error + app" where
  "on_select_file name st =
     (if name = [] then Inr st
      else case files st name of
             None \<Rightarrow> Inl KeyError
           | Some (path, df) \<Rightarrow>
               Inr (st\<lparr>selected_name := Some name, current_df_view := Some df\<rparr>))"

text \<open>
  \<open>open_file\<close>. \<open>path\<close> is the answer of the file dialog (empty when cancelled) and
  \<open>read\<close> the outcome of \<open>pd.read_excel\<close> (\<open>None\<close> when it raises). Selecting the name
  in the combo box runs \<open>on_select_file\<close> when the selection changes.
\<close>

definition open_file ::
  "(cell list \<Rightarrow> numeric) \<Rightarrow> (real \<Rightarrow> int) \<Rightarrow> string \<Rightarrow> string \<Rightarrow> frame option \<Rightarrow> app
     \<Rightarrow> error + app" where
  "open_file num ovf today path read st =
     (if path = [] then Inl Cancelled
      else case read of
             None \<Rightarrow> Inl Read_failed
           | Some fr \<Rightarrow>
               if columns fr \<noteq> STRICT_COLUMNS then Inl Invalid_format
               else case those (map student_of_cells (rows fr)) of
                      None \<Rightarrow> Inl Malformed_frame
                    | Some tbl \<Rightarrow>
                        (case recalculate_business_rules num ovf today tbl of
                           Inl e \<Rightarrow> Inl e
                         | Inr df \<Rightarrow>
                             let name = basename path;
                                 st1 = st\<lparr>files := (files st)(name \<mapsto> (path, df))\<rparr>
                             in if selected_name st1 = Some name then Inr st1
                                else on_select_file name st1))"

text \<open>
  \<open>delete_selected\<close>. \<open>row_idx\<close> is the current row of the table widget (-1 when no row
  is selected). The table's index is the default one (0, 1, ...), so dropping the label
  \<open>df.index[row_idx]\<close> removes the row at that position; \<open>reset_index\<close> renumbers the rest.
\<close>

definition drop_row :: "nat \<Rightarrow> table \<Rightarrow> table" where
  "drop_row i df = take i df @ drop (Suc i) df"

definition delete_selected ::
  "(cell list \<Rightarrow> numeric) \<Rightarrow> (real \<Rightarrow> int) \<Rightarrow> string \<Rightarrow> int \<Rightarrow> app \<Rightarrow> error + app" where
  "delete_selected num ovf today row_idx st =
     (case selected_name st of
        None \<Rightarrow> Inl No_file
      | Some name \<Rightarrow>
          if row_idx < 0 then Inl No_row_selected
          else case files st name of
                 None \<Rightarrow> Inl KeyError
               | Some (path, df) \<Rightarrow>
                   if int (length df) \<le> row_idx then Inl IndexError
                   else case recalculate_business_rules num ovf today (drop_row (nat row_idx) df) of
                          Inl e \<Rightarrow> Inl e
                        | Inr df1 \<Rightarrow>
                            Inr (st\<lparr>files := (files st)(name \<mapsto> (path, df1)),
                                     current_df_view := Some df1\<rparr>))"

section \<open>Search and date filter\<close>

text \<open>\<open>str.strip()\<close> and \<open>str.lower()\<close> on ASCII text.\<close>

definition is_space :: "char \<Rightarrow> bool" where
  "is_space c = (c \<in> set [CHR 0x09, CHR 0x0A, CHR 0x0B, CHR 0x0C, CHR 0x0D,
                            CHR 0x1C, CHR 0x1D, CHR 0x1E, CHR 0x1F, CHR 0x20])"

definition strip :: "string \<Rightarrow> string" where
  "strip s = rev (dropWhile is_space (rev (dropWhile is_space s)))"

definition lower_char :: "char \<Rightarrow> char" where
  "lower_char c =
     (case map_of (zip ''ABCDEFGHIJKLMNOPQRSTUVWXYZ'' ''abcdefghijklmnopqrstuvwxyz'') c of
        None \<Rightarrow> c
      | Some l \<Rightarrow> l)"

definition lower :: "string \<Rightarrow> string" where
  "lower s = map lower_char s"

text \<open>\<open>str(v)\<close> for a cell, as \<open>astype(str)\<close> applies it: a missing value reads \<open>nan\<close>.\<close>

fun str_nat :: "nat \<Rightarrow> string" where
  "str_nat n =
     (if n < 10 then [''0123456789'' ! n]
      else str_nat (n div 10) @ [''0123456789'' ! (n mod 10)])"

definition str_int :: "int \<Rightarrow> string" where
  "str_int n = (if n < 0 then CHR ''-'' # str_nat (nat (- n)) else str_nat (nat n))"

fun py_str :: "cell \<Rightarrow> string" where
  "py_str (Text s) = s"
| "py_str (Number n) = str_int n"
| "py_str NaN = ''nan''"

text \<open>
  \<open>Series.str.contains(keyword)\<close> takes the keyword as a regular expression. The model
  covers patterns made of ordinary characters and the wildcard \<open>.\<close> (any character but a
  newline); a pattern with another metacharacter is outside the model.
\<close>

definition is_meta :: "char \<Rightarrow> bool" where
  "is_meta c = (c \<in> set [CHR ''.'', CHR ''^'', CHR ''$'', CHR ''*'', CHR ''+'', CHR ''?'',
                           CHR ''{'', CHR ''}'', CHR ''['', CHR '']'', CHR 0x5C, CHR ''|'',
                           CHR ''('', CHR '')''])"

fun match_here :: "string \<Rightarrow> string \<Rightarrow> bool" where
  "match_here [] s = True"
| "match_here (p # ps) [] = False"
| "match_here (p # ps) (c # cs) =
     ((if p = CHR ''.'' then c \<noteq> CHR 0x0A else p = c) \<and> match_here ps cs)"

fun re_search :: "string \<Rightarrow> string \<Rightarrow> bool" where
  "re_search pat [] = match_here pat []"
| "re_search pat (c # cs) = (match_here pat (c # cs) \<or> re_search pat cs)"

definition in_fragment :: "string \<Rightarrow> bool" where
  "in_fragment pat = list_all (\<lambda>c. c = CHR ''.'' \<or> \<not> is_meta c) pat"

text \<open>The ten cells of a row, in the order of \<open>STRICT_COLUMNS\<close>.\<close>

definition cells :: "student \<Rightarrow> cell list" where
  "cells r = [Name r, Mobile_Number r, Year r, Dept r, Fee_Amount r, Fee_Paid r,
              Balance r, Due_Date r, Email r, Fee_Paid_On r]"

text \<open>
  \<open>apply_search\<close>. \<open>text\<close> is the content of the search box. The mask of a row is the
  disjunction, over the ten columns, of the match of the keyword in the lower-cased
  string of the cell.
\<close>

definition search_mask :: "string \<Rightarrow> student \<Rightarrow> bool" where
  "search_mask keyword r = list_ex (\<lambda>c. re_search keyword (lower (py_str c))) (cells r)"

definition apply_search :: "string \<Rightarrow> app \<Rightarrow> error + app" where
  "apply_search text st =
     (case selected_name st of
        None \<Rightarrow> Inl No_file
      | Some name \<Rightarrow>
          let keyword = lower (strip text) in
          case files st name of
            None \<Rightarrow> Inl KeyError
          | Some (path, df) \<Rightarrow>
              if keyword = [] then Inr (st\<lparr>current_df_view := Some df\<rparr>)
              else if \<not> in_fragment keyword then Inl Pattern_not_modelled
              else Inr (st\<lparr>current_df_view := Some (filter (search_mask keyword) df)\<rparr>))"

text \<open>
  A parsed date; \<open>None\<close> in a parsed column is \<open>NaT\<close>. \<open>pd.to_datetime\<close> works on the
  whole Due Date column and is a parameter \<open>to_datetime\<close> (\<open>None\<close> when it raises), as is
  Python's \<open>int\<close> on text, \<open>py_int\<close> (\<open>None\<close> for a \<open>ValueError\<close>).
\<close>

record timestamp =
  year :: int
  month :: int
  day :: int

text \<open>\<open>df[mask]\<close>: the rows whose mask entry is true.\<close>

definition select_rows :: "table \<Rightarrow> bool list \<Rightarrow> table" where
  "select_rows df msk = map fst (filter snd (zip df msk))"

definition mask_and :: "bool list \<Rightarrow> bool list \<Rightarrow> bool list" where
  "mask_and m1 m2 = map (\<lambda>(a, b). a \<and> b) (zip m1 m2)"

definition month_is :: "int \<Rightarrow> timestamp option \<Rightarrow> bool" where
  "month_is m p = (case p of None \<Rightarrow> False | Some d \<Rightarrow> month d = m)"

definition year_is :: "int \<Rightarrow> timestamp option \<Rightarrow> bool" where
  "year_is y p = (case p of None \<Rightarrow> False | Some d \<Rightarrow> year d = y)"

text \<open>
  \<open>apply_date_filter\<close>. \<open>mon\<close> is the text of the month box (\<open>All\<close>, or \<open>01\<close> to \<open>12\<close>)
  and \<open>yr\<close> the content of the year box.
\<close>

definition apply_date_filter ::
  "(cell list \<Rightarrow> timestamp option list option) \<Rightarrow> (string \<Rightarrow> int option) \<Rightarrow>
   string \<Rightarrow> string \<Rightarrow> app \<Rightarrow> error + app" where
  "apply_date_filter to_datetime py_int mon yr st =
     (case selected_name st of
        None \<Rightarrow> Inl No_file
      | Some name \<Rightarrow>
          let yr_text = strip yr in
          case files st name of
            None \<Rightarrow> Inl KeyError
          | Some (path, df) \<Rightarrow>
              (case to_datetime (map Due_Date df) of
                 None \<Rightarrow> Inl Date_parse_failed
               | Some parsed \<Rightarrow>
                   let mask0 = replicate (length df) True in
                   case (if mon \<noteq> ''All''
                         then (case py_int mon of
                                 None \<Rightarrow> Inl ValueError
                               | Some m \<Rightarrow> Inr (mask_and mask0 (map (month_is m) parsed)))
                         else Inr mask0) of
                     Inl e \<Rightarrow> Inl e
                   | Inr mask1 \<Rightarrow>
                       (case (if yr_text \<noteq> []
                              then (case py_int yr_text of
                                      None \<Rightarrow> Inl Year_not_numeric
                                    | Some y \<Rightarrow> Inr (mask_and mask1 (map (year_is y) parsed)))
                              else Inr mask1) of
                          Inl e \<Rightarrow> Inl e
                        | Inr msk \<Rightarrow> Inr (st\<lparr>current_df_view := Some (select_rows df msk)\<rparr>))))"

section \<open>Recomputed records\<close>

text \<open>
  The state in which recompute leaves a record: Fee Amount and Fee Paid are 64-bit
  integers, Balance is their clipped difference, a paid-up record has an empty Due Date
  and a Fee Paid On that is set (or is the current date), and a record with dues has
  an empty Fee Paid On.
\<close>

definition settled :: "string \<Rightarrow> student \<Rightarrow> bool" where
  "settled today r =
     (case (Fee_Amount r, Fee_Paid r) of
        (Number a, Number p) \<Rightarrow>
          is_int64 a \<and> is_int64 p \<and> Balance r = Number (max 0 (wrap64 (a - p)))
          \<and> (if max 0 (wrap64 (a - p)) = 0
              then (truthy (Fee_Paid_On r) \<or> Fee_Paid_On r = Text today) \<and> Due_Date r = Text []
              else Fee_Paid_On r = Text [])
      | _ \<Rightarrow> False)"

section \<open>Sample readers\<close>

text \<open>
  A reader of plain decimal literals (an optional minus sign and digits). On such text it
  agrees with pandas' numeric reader and with Python's \<open>int\<close>; it instantiates the reader
  parameters at concrete inputs.
\<close>

definition is_digit :: "char \<Rightarrow> bool" where
  "is_digit c = (c \<in> set ''0123456789'')"

definition digit_value :: "char \<Rightarrow> nat" where
  "digit_value c = of_char c - 48"

fun read_digits :: "nat \<Rightarrow> string \<Rightarrow> nat option" where
  "read_digits acc [] = Some acc"
| "read_digits acc (c # cs) =
     (if is_digit c then read_digits (10 * acc + digit_value c) cs else None)"

definition read_decimal :: "string \<Rightarrow> int option" where
  "read_decimal s =
     (case s of
        [] \<Rightarrow> None
      | c # cs \<Rightarrow>
          if c = CHR ''-''
          then (if cs = [] then None else map_option (\<lambda>n. - int n) (read_digits 0 cs))
          else map_option int (read_digits 0 s))"

text \<open>
  A reader of ISO dates \<open>YYYY-MM-DD\<close>, cell by cell; anything else reads as \<open>NaT\<close>. On
  columns of such dates and empty cells it agrees with \<open>pd.to_datetime(errors='coerce')\<close>.
\<close>

definition days_in_month :: "int \<Rightarrow> int \<Rightarrow> int" where
  "days_in_month y m =
     (if m = 2 then (if y mod 4 = 0 \<and> (y mod 100 \<noteq> 0 \<or> y mod 400 = 0) then 29 else 28)
      else if m \<in> {4, 6, 9, 11} then 30 else 31)"

definition read_iso_date :: "cell \<Rightarrow> timestamp option" where
  "read_iso_date c =
     (case c of
        Text [y1, y2, y3, y4, s1, m1, m2, s2, d1, d2] \<Rightarrow>
          (if s1 = CHR ''-'' \<and> s2 = CHR ''-'' then
             (case (read_digits 0 [y1, y2, y3, y4], read_digits 0 [m1, m2], read_digits 0 [d1, d2]) of
                (Some y, Some m, Some d) \<Rightarrow>
                  if 1 \<le> y \<and> 1 \<le> m \<and> m \<le> 12 \<and> 1 \<le> d \<and> int d \<le> days_in_month (int y) (int m)
                  then Some \<lparr>year = int y, month = int m, day = int d\<rparr> else None
              | _ \<Rightarrow> None)
           else None)
      | _ \<Rightarrow> None)"

definition read_iso_dates :: "cell list \<Rightarrow> timestamp option list option" where
  "read_iso_dates col = Some (map read_iso_date col)"

text \<open>
  A converter of columns of whole numbers, plain decimal literals and missing values,
  all within the 64-bit range. As pandas does on such columns, it gives an integer
  column when every cell reads as a whole number, and otherwise a float column in which
  a whole number is rounded to the nearest float (to even on a tie; 53 bits of
  precision) and every other cell is NaN. The platform's cast of a float that does not
  fit is taken to give the least 64-bit integer, as x86-64 does.
\<close>

fun read_cell :: "cell \<Rightarrow> int option" where
  "read_cell (Number n) = Some n"
| "read_cell (Text s) = read_decimal s"
| "read_cell NaN = None"

fun bit_length :: "nat \<Rightarrow> nat" where
  "bit_length n = (if n = 0 then 0 else Suc (bit_length (n div 2)))"

definition round_float :: "int \<Rightarrow> int" where
  "round_float n =
     (let m = nat \<bar>n\<bar>
      in if bit_length m \<le> 53 then n
         else let e = bit_length m - 53;
                  q = m div 2 ^ e;
                  r = m mod 2 ^ e;
                  h = 2 ^ (e - 1);
                  q1 = (if h < r \<or> (r = h \<and> odd q) then q + 1 else q)
              in sgn n * int (q1 * 2 ^ e))"

definition read_numeric_column :: "cell list \<Rightarrow> numeric" where
  "read_numeric_column col =
     (let rs = map read_cell col
      in if list_all (\<lambda>r. case r of None \<Rightarrow> False | Some n \<Rightarrow> is_int64 n) rs
         then Int_column (map (\<lambda>r. case r of None \<Rightarrow> 0 | Some n \<Rightarrow> n) rs)
         else Float_column
                (map (\<lambda>r. case r of None \<Rightarrow> Nan | Some n \<Rightarrow> Fin (of_int (round_float n))) rs))"

definition least_int64 :: "real \<Rightarrow> int" where
  "least_int64 x = - 9223372036854775808"

section \<open>Properties of the business rules\<close>

lemma wrap64_range: "is_int64 (wrap64 n)"
proof -
  have "0 \<le> (n + 9223372036854775808) mod 18446744073709551616"
    and "(n + 9223372036854775808) mod 18446744073709551616 < 18446744073709551616"
    by simp_all
  then show ?thesis
    unfolding is_int64_def wrap64_def by linarith
qed

lemma wrap64_id: "is_int64 n \<Longrightarrow> wrap64 n = n"
  unfolding is_int64_def wrap64_def by (simp add: mod_pos_pos_trivial)

lemma cast_entry_range: "is_int64 (cast_entry ovf v)"
proof (cases v)
  case (Fin x)
  then show ?thesis by (simp add: wrap64_range)
next
  case Inf
  then show ?thesis by (simp add: is_int64_def)
next
  case Nan
  then show ?thesis by (simp add: is_int64_def)
qed

lemma int64_cell_value: "int64_cell c \<Longrightarrow> is_int64 (int_value c)"
  by (cases c) simp_all

lemma astype_int_range: "astype_int ovf c = Inr xs \<Longrightarrow> list_all is_int64 xs"
  by (cases c) (auto simp: list_all_iff wrap64_range cast_entry_range split: if_splits)

lemma to_numeric_numbers:
  "list_all is_int64 xs \<Longrightarrow> to_numeric num (map Number xs) = Int_column xs"
  by (simp add: to_numeric_def list_all_iff comp_def)

lemma astype_int_numbers:
  "list_all is_int64 xs \<Longrightarrow> astype_int ovf (fillna (to_numeric num (map Number xs))) = Inr xs"
  by (simp add: to_numeric_numbers list_all_iff wrap64_id map_idI)

lemma recalculate_results:
  assumes "recalculate_business_rules num ovf today df = Inr out"
  obtains amts paids where
    "astype_int ovf (fillna (to_numeric num (map Fee_Amount df))) = Inr amts"
    "astype_int ovf (fillna (to_numeric num (map Fee_Paid df))) = Inr paids"
    "length amts = length df" "length paids = length df"
    "out = map (\<lambda>(r, a, p). recalculate_row today r a p) (zip df (zip amts paids))"
  using assms
  by (auto simp: recalculate_business_rules_def split: sum.splits if_splits)

lemma recalculate_run:
  assumes "astype_int ovf (fillna (to_numeric num (map Fee_Amount df))) = Inr amts"
    and "astype_int ovf (fillna (to_numeric num (map Fee_Paid df))) = Inr paids"
    and "length amts = length df" and "length paids = length df"
  shows "recalculate_business_rules num ovf today df
      = Inr (map (\<lambda>(r, a, p). recalculate_row today r a p) (zip df (zip amts paids)))"
  using assms by (simp add: recalculate_business_rules_def)

lemma recalculate_row_amounts:
  "Fee_Amount (recalculate_row today r a p) = Number a"
  "Fee_Paid (recalculate_row today r a p) = Number p"
  "Balance (recalculate_row today r a p) = Number (max 0 (wrap64 (a - p)))"
  by (simp_all add: recalculate_row_def Let_def)

lemma recalculate_row_paid_on:
  "Fee_Paid_On (recalculate_row today r a p) =
     (if wrap64 (a - p) \<le> 0
      then (if truthy (Fee_Paid_On r) then Fee_Paid_On r else Text today)
      else Text [])"
  by (simp add: recalculate_row_def Let_def max_def)

lemma recalculate_row_due_date:
  "Due_Date (recalculate_row today r a p) =
     (if wrap64 (a - p) \<le> 0 then Text [] else Due_Date r)"
  by (simp add: recalculate_row_def Let_def max_def)

lemma recalculate_row_text_fields:
  "Name (recalculate_row today r a p) = Name r"
  "Mobile_Number (recalculate_row today r a p) = Mobile_Number r"
  "Year (recalculate_row today r a p) = Year r"
  "Dept (recalculate_row today r a p) = Dept r"
  "Email (recalculate_row today r a p) = Email r"
  by (simp_all add: recalculate_row_def Let_def)

lemma settled_recalculate_row:
  "is_int64 a \<Longrightarrow> is_int64 p \<Longrightarrow> settled today (recalculate_row today r a p)"
  by (simp add: settled_def recalculate_row_amounts recalculate_row_paid_on
      recalculate_row_due_date max_def)

lemma settled_fixed:
  assumes "settled today r"
  shows "recalculate_row today r (int_value (Fee_Amount r)) (int_value (Fee_Paid r)) = r"
proof -
  from assms obtain a p where ap: "Fee_Amount r = Number a" "Fee_Paid r = Number p"
    by (auto simp: settled_def split: cell.splits)
  let ?r = "recalculate_row today r a p"
  have rest: "Balance r = Number (max 0 (wrap64 (a - p)))"
    "if max 0 (wrap64 (a - p)) = 0
     then (truthy (Fee_Paid_On r) \<or> Fee_Paid_On r = Text today) \<and> Due_Date r = Text []
     else Fee_Paid_On r = Text []"
    using assms ap by (simp_all add: settled_def)
  have "Fee_Amount ?r = Fee_Amount r" "Fee_Paid ?r = Fee_Paid r" "Balance ?r = Balance r"
    using ap rest(1) by (simp_all add: recalculate_row_amounts)
  moreover have "Fee_Paid_On ?r = Fee_Paid_On r"
    using rest(2) by (auto simp: recalculate_row_paid_on max_def split: if_splits)
  moreover have "Due_Date ?r = Due_Date r"
    using rest(2) by (auto simp: recalculate_row_due_date max_def split: if_splits)
  moreover have "Name ?r = Name r" "Mobile_Number ?r = Mobile_Number r" "Year ?r = Year r"
    "Dept ?r = Dept r" "Email ?r = Email r"
    by (simp_all add: recalculate_row_text_fields)
  moreover have "student.more ?r = student.more r"
    by (simp add: recalculate_row_def Let_def)
  ultimately have "?r = r"
    by (intro student.equality) simp_all
  then show ?thesis
    using ap by simp
qed

lemma settled_int64_cells:
  "settled today r \<Longrightarrow> int64_cell (Fee_Amount r) \<and> int64_cell (Fee_Paid r)"
  by (auto simp: settled_def split: cell.splits)

lemma map3_fixed:
  "\<forall>r \<in> set t. f r (g r) (h r) = r \<Longrightarrow>
   map (\<lambda>(r, a, p). f r a p) (zip t (zip (map g t) (map h t))) = t"
  by (induction t) auto

lemma settled_table_fixed:
  assumes "list_all (settled today) t"
  shows "recalculate_business_rules num ovf today t = Inr t"
proof -
  let ?a = "map (\<lambda>r. int_value (Fee_Amount r)) t"
  let ?p = "map (\<lambda>r. int_value (Fee_Paid r)) t"
  have cells: "list_all int64_cell (map Fee_Amount t)" "list_all int64_cell (map Fee_Paid t)"
    using assms settled_int64_cells by (auto simp: list_all_iff)
  have rng: "\<forall>r \<in> set t. is_int64 (int_value (Fee_Amount r)) \<and> is_int64 (int_value (Fee_Paid r))"
    using assms settled_int64_cells int64_cell_value by (auto simp: list_all_iff)
  have a: "astype_int ovf (fillna (to_numeric num (map Fee_Amount t))) = Inr ?a"
    using cells(1) rng by (simp add: to_numeric_def comp_def wrap64_id)
  have p: "astype_int ovf (fillna (to_numeric num (map Fee_Paid t))) = Inr ?p"
    using cells(2) rng by (simp add: to_numeric_def comp_def wrap64_id)
  have "map (\<lambda>(r, a, p). recalculate_row today r a p) (zip t (zip ?a ?p)) = t"
    using assms by (intro map3_fixed) (simp add: list_all_iff settled_fixed)
  then show ?thesis
    using recalculate_run [OF a p, of today] by simp
qed

lemma settled_results:
  assumes "recalculate_business_rules num ovf today df = Inr out"
  shows "list_all (settled today) out"
proof -
  from assms obtain amts paids where
    a: "astype_int ovf (fillna (to_numeric num (map Fee_Amount df))) = Inr amts" and
    p: "astype_int ovf (fillna (to_numeric num (map Fee_Paid df))) = Inr paids" and
    la: "length amts = length df" and lp: "length paids = length df" and
    out: "out = map (\<lambda>(r, a, p). recalculate_row today r a p) (zip df (zip amts paids))"
    by (rule recalculate_results)
  have "is_int64 (amts ! i)" "is_int64 (paids ! i)" if "i < length df" for i
    using astype_int_range [OF a] astype_int_range [OF p] that la lp
    by (simp_all add: list_all_length)
  then show ?thesis
    unfolding out using la lp
    by (simp add: list_all_length settled_recalculate_row)
qed

lemma recalculate_nth:
  assumes "recalculate_business_rules num ovf today df = Inr out" and "i < length df"
  obtains amts paids where
    "astype_int ovf (fillna (to_numeric num (map Fee_Amount df))) = Inr amts"
    "astype_int ovf (fillna (to_numeric num (map Fee_Paid df))) = Inr paids"
    "length amts = length df" "length paids = length df"
    "out ! i = recalculate_row today (df ! i) (amts ! i) (paids ! i)"
    "is_int64 (amts ! i)" "is_int64 (paids ! i)"
proof -
  from assms(1) obtain amts paids where
    a: "astype_int ovf (fillna (to_numeric num (map Fee_Amount df))) = Inr amts" and
    p: "astype_int ovf (fillna (to_numeric num (map Fee_Paid df))) = Inr paids" and
    la: "length amts = length df" and lp: "length paids = length df" and
    out: "out = map (\<lambda>(r, a, p). recalculate_row today r a p) (zip df (zip amts paids))"
    by (rule recalculate_results)
  have "out ! i = recalculate_row today (df ! i) (amts ! i) (paids ! i)"
    using assms(2) la lp by (simp add: out)
  moreover have "is_int64 (amts ! i)" "is_int64 (paids ! i)"
    using astype_int_range [OF a] astype_int_range [OF p] assms(2) la lp
    by (simp_all add: list_all_length)
  ultimately show ?thesis
    using a p la lp that by blast
qed

lemma recalculate_length:
  "recalculate_business_rules num ovf today df = Inr out \<Longrightarrow> length out = length df"
  by (erule recalculate_results) simp

text \<open>
  C1, as the code has it. When recompute completes, the Fee Amount and the Fee Paid of
  every record are the entries of the converted columns, both signed 64-bit integers,
  and the Balance is their difference, computed in 64 bits, clipped at 0. It equals
  max(0, Fee Amount - Fee Paid) whenever that difference fits in 64 bits.
\<close>

theorem recompute_balance:
  assumes "recalculate_business_rules num ovf today df = Inr out" and "i < length df"
  shows "\<exists>amts paids.
           astype_int ovf (fillna (to_numeric num (map Fee_Amount df))) = Inr amts
         \<and> astype_int ovf (fillna (to_numeric num (map Fee_Paid df))) = Inr paids
         \<and> Fee_Amount (out ! i) = Number (amts ! i) \<and> is_int64 (amts ! i)
         \<and> Fee_Paid (out ! i) = Number (paids ! i) \<and> is_int64 (paids ! i)
         \<and> Balance (out ! i) = Number (max 0 (wrap64 (amts ! i - paids ! i)))
         \<and> (is_int64 (amts ! i - paids ! i)
              \<longrightarrow> Balance (out ! i) = Number (max 0 (amts ! i - paids ! i)))"
proof -
  from assms obtain amts paids where
    a: "astype_int ovf (fillna (to_numeric num (map Fee_Amount df))) = Inr amts" and
    p: "astype_int ovf (fillna (to_numeric num (map Fee_Paid df))) = Inr paids" and
    row: "out ! i = recalculate_row today (df ! i) (amts ! i) (paids ! i)" and
    rng: "is_int64 (amts ! i)" "is_int64 (paids ! i)"
    by (rule recalculate_nth)
  show ?thesis
    using a p rng by (auto simp: row recalculate_row_amounts wrap64_id)
qed

theorem recompute_balance_witness:
  "recalculate_business_rules read_numeric_column least_int64 ''2025-01-15'' [\<lparr>Name = Text ''Asha'', Mobile_Number = Text ''9876543210'', Year = Text ''2'',
          Dept = Text ''CSE'', Fee_Amount = Text ''5000'', Fee_Paid = Number 2000,
          Balance = NaN, Due_Date = Text ''2025-03-10'',
          Email = Text ''asha@example.com'', Fee_Paid_On = NaN\<rparr>] = Inr [\<lparr>Name = Text ''Asha'', Mobile_Number = Text ''9876543210'', Year = Text ''2'',
          Dept = Text ''CSE'', Fee_Amount = Number 5000, Fee_Paid = Number 2000,
          Balance = Number 3000, Due_Date = Text ''2025-03-10'',
          Email = Text ''asha@example.com'', Fee_Paid_On = Text []\<rparr>]
   \<and> (0::nat) < length [\<lparr>Name = Text ''Asha'', Mobile_Number = Text ''9876543210'', Year = Text ''2'',
          Dept = Text ''CSE'', Fee_Amount = Text ''5000'', Fee_Paid = Number 2000,
          Balance = NaN, Due_Date = Text ''2025-03-10'',
          Email = Text ''asha@example.com'', Fee_Paid_On = NaN\<rparr>]
   \<and> is_int64 (5000 - 2000)
   \<and> Balance ([\<lparr>Name = Text ''Asha'', Mobile_Number = Text ''9876543210'', Year = Text ''2'',
          Dept = Text ''CSE'', Fee_Amount = Number 5000, Fee_Paid = Number 2000,
          Balance = Number 3000, Due_Date = Text ''2025-03-10'',
          Email = Text ''asha@example.com'', Fee_Paid_On = Text []\<rparr>] ! 0) = Number (max 0 (5000 - 2000))"
proof -
  have run: "recalculate_business_rules read_numeric_column least_int64 ''2025-01-15'' [\<lparr>Name = Text ''Asha'', Mobile_Number = Text ''9876543210'', Year = Text ''2'',
          Dept = Text ''CSE'', Fee_Amount = Text ''5000'', Fee_Paid = Number 2000,
          Balance = NaN, Due_Date = Text ''2025-03-10'',
          Email = Text ''asha@example.com'', Fee_Paid_On = NaN\<rparr>] = Inr [\<lparr>Name = Text ''Asha'', Mobile_Number = Text ''9876543210'', Year = Text ''2'',
          Dept = Text ''CSE'', Fee_Amount = Number 5000, Fee_Paid = Number 2000,
          Balance = Number 3000, Due_Date = Text ''2025-03-10'',
          Email = Text ''asha@example.com'', Fee_Paid_On = Text []\<rparr>]"
    by (simp add: recalculate_business_rules_def to_numeric_def is_int64_def wrap64_def recalculate_row_def read_numeric_column_def read_decimal_def is_digit_def digit_value_def trunc_def)
  have len: "(0::nat) < length [\<lparr>Name = Text ''Asha'', Mobile_Number = Text ''9876543210'', Year = Text ''2'',
          Dept = Text ''CSE'', Fee_Amount = Text ''5000'', Fee_Paid = Number 2000,
          Balance = NaN, Due_Date = Text ''2025-03-10'',
          Email = Text ''asha@example.com'', Fee_Paid_On = NaN\<rparr>]"
    by simp
  from recompute_balance [OF run len] obtain amts paids where
    "Fee_Amount ([\<lparr>Name = Text ''Asha'', Mobile_Number = Text ''9876543210'', Year = Text ''2'',
          Dept = Text ''CSE'', Fee_Amount = Number 5000, Fee_Paid = Number 2000,
          Balance = Number 3000, Due_Date = Text ''2025-03-10'',
          Email = Text ''asha@example.com'', Fee_Paid_On = Text []\<rparr>] ! 0) = Number (amts ! 0)"
    "Fee_Paid ([\<lparr>Name = Text ''Asha'', Mobile_Number = Text ''9876543210'', Year = Text ''2'',
          Dept = Text ''CSE'', Fee_Amount = Number 5000, Fee_Paid = Number 2000,
          Balance = Number 3000, Due_Date = Text ''2025-03-10'',
          Email = Text ''asha@example.com'', Fee_Paid_On = Text []\<rparr>] ! 0) = Number (paids ! 0)"
    "is_int64 (amts ! 0 - paids ! 0)
       \<longrightarrow> Balance ([\<lparr>Name = Text ''Asha'', Mobile_Number = Text ''9876543210'', Year = Text ''2'',
          Dept = Text ''CSE'', Fee_Amount = Number 5000, Fee_Paid = Number 2000,
          Balance = Number 3000, Due_Date = Text ''2025-03-10'',
          Email = Text ''asha@example.com'', Fee_Paid_On = Text []\<rparr>] ! 0) = Number (max 0 (amts ! 0 - paids ! 0))"
    by blast
  then have "is_int64 (5000 - 2000)
       \<longrightarrow> Balance ([\<lparr>Name = Text ''Asha'', Mobile_Number = Text ''9876543210'', Year = Text ''2'',
          Dept = Text ''CSE'', Fee_Amount = Number 5000, Fee_Paid = Number 2000,
          Balance = Number 3000, Due_Date = Text ''2025-03-10'',
          Email = Text ''asha@example.com'', Fee_Paid_On = Text []\<rparr>] ! 0) = Number (max 0 (5000 - 2000))"
    by simp
  moreover have "is_int64 (5000 - 2000)"
    by (simp add: is_int64_def)
  ultimately show ?thesis
    using run len by blast
qed

text \<open>
  C1 as stated fails: with Fee Amount 9223372036854775807 and Fee Paid -1 the 64-bit
  difference wraps around to a negative number, so the Balance is 0 and the record is
  treated as paid, whereas max(0, Fee Amount - Fee Paid) is 9223372036854775808.
\<close>

theorem recompute_balance_wraps:
  "recalculate_business_rules read_numeric_column least_int64 ''2025-01-15'' [\<lparr>Name = Text ''Asha'', Mobile_Number = Text ''9876543210'', Year = Text ''2'',
          Dept = Text ''CSE'', Fee_Amount = Number 9223372036854775807, Fee_Paid = Number (- 1),
          Balance = NaN, Due_Date = Text ''2025-03-10'',
          Email = Text ''asha@example.com'', Fee_Paid_On = Text []\<rparr>] = Inr [\<lparr>Name = Text ''Asha'', Mobile_Number = Text ''9876543210'', Year = Text ''2'',
          Dept = Text ''CSE'', Fee_Amount = Number 9223372036854775807, Fee_Paid = Number (- 1),
          Balance = Number 0, Due_Date = Text [],
          Email = Text ''asha@example.com'', Fee_Paid_On = Text ''2025-01-15''\<rparr>]
   \<and> max 0 (9223372036854775807 - (- 1)) = (9223372036854775808 :: int)"
  by (simp add: recalculate_business_rules_def to_numeric_def is_int64_def wrap64_def recalculate_row_def)

text \<open>
  C3. Recompute is idempotent: with the same current date, applying recompute to the
  table that recompute returns gives that table again (and a call that raises leaves
  nothing to recompute).
\<close>

theorem recompute_idempotent:
  "(case recalculate_business_rules num ovf today df of
      Inl e \<Rightarrow> Inl e
    | Inr out \<Rightarrow> recalculate_business_rules num ovf today out)
   = recalculate_business_rules num ovf today df"
proof (cases "recalculate_business_rules num ovf today df")
  case (Inl e)
  then show ?thesis by simp
next
  case (Inr out)
  then have "recalculate_business_rules num ovf today out = Inr out"
    by (intro settled_table_fixed settled_results)
  with Inr show ?thesis by simp
qed

text \<open>
  C4. Recompute keeps the fields it must not touch: where the computed Balance is 0 and
  Fee Paid On was already set, Fee Paid On is unchanged; where the computed Balance is
  positive, Due Date is unchanged.
\<close>

theorem recompute_frame:
  assumes "recalculate_business_rules num ovf today df = Inr out" and "i < length df"
  shows "(Balance (out ! i) = Number 0 \<and> \<not> is_empty (Fee_Paid_On (df ! i))
          \<longrightarrow> Fee_Paid_On (out ! i) = Fee_Paid_On (df ! i))
       \<and> (\<forall>b. Balance (out ! i) = Number b \<and> 0 < b
          \<longrightarrow> Due_Date (out ! i) = Due_Date (df ! i))"
proof -
  from assms obtain amts paids where
    row: "out ! i = recalculate_row today (df ! i) (amts ! i) (paids ! i)"
    by (rule recalculate_nth)
  show ?thesis
    unfolding row
    by (auto simp: recalculate_row_amounts recalculate_row_paid_on
        recalculate_row_due_date is_empty_def max_def split: if_splits)
qed

theorem recompute_frame_witness:
  "recalculate_business_rules read_numeric_column least_int64 ''2025-01-15'' [\<lparr>Name = Text ''Asha'', Mobile_Number = Text ''9876543210'', Year = Text ''2'',
          Dept = Text ''CSE'', Fee_Amount = Number 5000, Fee_Paid = Number 5000,
          Balance = Number 0, Due_Date = NaN,
          Email = Text ''asha@example.com'', Fee_Paid_On = Text ''2024-12-01''\<rparr>, \<lparr>Name = Text ''Ravi'', Mobile_Number = Text ''9123456780'', Year = Text ''3'',
          Dept = Text ''ECE'', Fee_Amount = Number 5000, Fee_Paid = Number 2000,
          Balance = Number 3000, Due_Date = Text ''2025-03-10'',
          Email = Text ''ravi@example.com'', Fee_Paid_On = NaN\<rparr>] = Inr [\<lparr>Name = Text ''Asha'', Mobile_Number = Text ''9876543210'', Year = Text ''2'',
          Dept = Text ''CSE'', Fee_Amount = Number 5000, Fee_Paid = Number 5000,
          Balance = Number 0, Due_Date = Text [],
          Email = Text ''asha@example.com'', Fee_Paid_On = Text ''2024-12-01''\<rparr>, \<lparr>Name = Text ''Ravi'', Mobile_Number = Text ''9123456780'', Year = Text ''3'',
          Dept = Text ''ECE'', Fee_Amount = Number 5000, Fee_Paid = Number 2000,
          Balance = Number 3000, Due_Date = Text ''2025-03-10'',
          Email = Text ''ravi@example.com'', Fee_Paid_On = Text []\<rparr>]
   \<and> Balance ([\<lparr>Name = Text ''Asha'', Mobile_Number = Text ''9876543210'', Year = Text ''2'',
          Dept = Text ''CSE'', Fee_Amount = Number 5000, Fee_Paid = Number 5000,
          Balance = Number 0, Due_Date = Text [],
          Email = Text ''asha@example.com'', Fee_Paid_On = Text ''2024-12-01''\<rparr>, \<lparr>Name = Text ''Ravi'', Mobile_Number = Text ''9123456780'', Year = Text ''3'',
          Dept = Text ''ECE'', Fee_Amount = Number 5000, Fee_Paid = Number 2000,
          Balance = Number 3000, Due_Date = Text ''2025-03-10'',
          Email = Text ''ravi@example.com'', Fee_Paid_On = Text []\<rparr>] ! 0) = Number 0
   \<and> \<not> is_empty (Fee_Paid_On ([\<lparr>Name = Text ''Asha'', Mobile_Number = Text ''9876543210'', Year = Text ''2'',
          Dept = Text ''CSE'', Fee_Amount = Number 5000, Fee_Paid = Number 5000,
          Balance = Number 0, Due_Date = NaN,
          Email = Text ''asha@example.com'', Fee_Paid_On = Text ''2024-12-01''\<rparr>, \<lparr>Name = Text ''Ravi'', Mobile_Number = Text ''9123456780'', Year = Text ''3'',
          Dept = Text ''ECE'', Fee_Amount = Number 5000, Fee_Paid = Number 2000,
          Balance = Number 3000, Due_Date = Text ''2025-03-10'',
          Email = Text ''ravi@example.com'', Fee_Paid_On = NaN\<rparr>] ! 0))
   \<and> Fee_Paid_On ([\<lparr>Name = Text ''Asha'', Mobile_Number = Text ''9876543210'', Year = Text ''2'',
          Dept = Text ''CSE'', Fee_Amount = Number 5000, Fee_Paid = Number 5000,
          Balance = Number 0, Due_Date = Text [],
          Email = Text ''asha@example.com'', Fee_Paid_On = Text ''2024-12-01''\<rparr>, \<lparr>Name = Text ''Ravi'', Mobile_Number = Text ''9123456780'', Year = Text ''3'',
          Dept = Text ''ECE'', Fee_Amount = Number 5000, Fee_Paid = Number 2000,
          Balance = Number 3000, Due_Date = Text ''2025-03-10'',
          Email = Text ''ravi@example.com'', Fee_Paid_On = Text []\<rparr>] ! 0) = Fee_Paid_On ([\<lparr>Name = Text ''Asha'', Mobile_Number = Text ''9876543210'', Year = Text ''2'',
          Dept = Text ''CSE'', Fee_Amount = Number 5000, Fee_Paid = Number 5000,
          Balance = Number 0, Due_Date = NaN,
          Email = Text ''asha@example.com'', Fee_Paid_On = Text ''2024-12-01''\<rparr>, \<lparr>Name = Text ''Ravi'', Mobile_Number = Text ''9123456780'', Year = Text ''3'',
          Dept = Text ''ECE'', Fee_Amount = Number 5000, Fee_Paid = Number 2000,
          Balance = Number 3000, Due_Date = Text ''2025-03-10'',
          Email = Text ''ravi@example.com'', Fee_Paid_On = NaN\<rparr>] ! 0)
   \<and> Balance ([\<lparr>Name = Text ''Asha'', Mobile_Number = Text ''9876543210'', Year = Text ''2'',
          Dept = Text ''CSE'', Fee_Amount = Number 5000, Fee_Paid = Number 5000,
          Balance = Number 0, Due_Date = Text [],
          Email = Text ''asha@example.com'', Fee_Paid_On = Text ''2024-12-01''\<rparr>, \<lparr>Name = Text ''Ravi'', Mobile_Number = Text ''9123456780'', Year = Text ''3'',
          Dept = Text ''ECE'', Fee_Amount = Number 5000, Fee_Paid = Number 2000,
          Balance = Number 3000, Due_Date = Text ''2025-03-10'',
          Email = Text ''ravi@example.com'', Fee_Paid_On = Text []\<rparr>] ! 1) = Number 3000 \<and> (0::int) < 3000
   \<and> Due_Date ([\<lparr>Name = Text ''Asha'', Mobile_Number = Text ''9876543210'', Year = Text ''2'',
          Dept = Text ''CSE'', Fee_Amount = Number 5000, Fee_Paid = Number 5000,
          Balance = Number 0, Due_Date = Text [],
          Email = Text ''asha@example.com'', Fee_Paid_On = Text ''2024-12-01''\<rparr>, \<lparr>Name = Text ''Ravi'', Mobile_Number = Text ''9123456780'', Year = Text ''3'',
          Dept = Text ''ECE'', Fee_Amount = Number 5000, Fee_Paid = Number 2000,
          Balance = Number 3000, Due_Date = Text ''2025-03-10'',
          Email = Text ''ravi@example.com'', Fee_Paid_On = Text []\<rparr>] ! 1) = Due_Date ([\<lparr>Name = Text ''Asha'', Mobile_Number = Text ''9876543210'', Year = Text ''2'',
          Dept = Text ''CSE'', Fee_Amount = Number 5000, Fee_Paid = Number 5000,
          Balance = Number 0, Due_Date = NaN,
          Email = Text ''asha@example.com'', Fee_Paid_On = Text ''2024-12-01''\<rparr>, \<lparr>Name = Text ''Ravi'', Mobile_Number = Text ''9123456780'', Year = Text ''3'',
          Dept = Text ''ECE'', Fee_Amount = Number 5000, Fee_Paid = Number 2000,
          Balance = Number 3000, Due_Date = Text ''2025-03-10'',
          Email = Text ''ravi@example.com'', Fee_Paid_On = NaN\<rparr>] ! 1)"
proof -
  have run: "recalculate_business_rules read_numeric_column least_int64 ''2025-01-15'' [\<lparr>Name = Text ''Asha'', Mobile_Number = Text ''9876543210'', Year = Text ''2'',
          Dept = Text ''CSE'', Fee_Amount = Number 5000, Fee_Paid = Number 5000,
          Balance = Number 0, Due_Date = NaN,
          Email = Text ''asha@example.com'', Fee_Paid_On = Text ''2024-12-01''\<rparr>, \<lparr>Name = Text ''Ravi'', Mobile_Number = Text ''9123456780'', Year = Text ''3'',
          Dept = Text ''ECE'', Fee_Amount = Number 5000, Fee_Paid = Number 2000,
          Balance = Number 3000, Due_Date = Text ''2025-03-10'',
          Email = Text ''ravi@example.com'', Fee_Paid_On = NaN\<rparr>] = Inr [\<lparr>Name = Text ''Asha'', Mobile_Number = Text ''9876543210'', Year = Text ''2'',
          Dept = Text ''CSE'', Fee_Amount = Number 5000, Fee_Paid = Number 5000,
          Balance = Number 0, Due_Date = Text [],
          Email = Text ''asha@example.com'', Fee_Paid_On = Text ''2024-12-01''\<rparr>, \<lparr>Name = Text ''Ravi'', Mobile_Number = Text ''9123456780'', Year = Text ''3'',
          Dept = Text ''ECE'', Fee_Amount = Number 5000, Fee_Paid = Number 2000,
          Balance = Number 3000, Due_Date = Text ''2025-03-10'',
          Email = Text ''ravi@example.com'', Fee_Paid_On = Text []\<rparr>]"
    by (simp add: recalculate_business_rules_def to_numeric_def is_int64_def wrap64_def recalculate_row_def read_numeric_column_def read_decimal_def is_digit_def digit_value_def trunc_def)
  have b0: "Balance ([\<lparr>Name = Text ''Asha'', Mobile_Number = Text ''9876543210'', Year = Text ''2'',
          Dept = Text ''CSE'', Fee_Amount = Number 5000, Fee_Paid = Number 5000,
          Balance = Number 0, Due_Date = Text [],
          Email = Text ''asha@example.com'', Fee_Paid_On = Text ''2024-12-01''\<rparr>, \<lparr>Name = Text ''Ravi'', Mobile_Number = Text ''9123456780'', Year = Text ''3'',
          Dept = Text ''ECE'', Fee_Amount = Number 5000, Fee_Paid = Number 2000,
          Balance = Number 3000, Due_Date = Text ''2025-03-10'',
          Email = Text ''ravi@example.com'', Fee_Paid_On = Text []\<rparr>] ! 0) = Number 0"
    and b1: "Balance ([\<lparr>Name = Text ''Asha'', Mobile_Number = Text ''9876543210'', Year = Text ''2'',
          Dept = Text ''CSE'', Fee_Amount = Number 5000, Fee_Paid = Number 5000,
          Balance = Number 0, Due_Date = Text [],
          Email = Text ''asha@example.com'', Fee_Paid_On = Text ''2024-12-01''\<rparr>, \<lparr>Name = Text ''Ravi'', Mobile_Number = Text ''9123456780'', Year = Text ''3'',
          Dept = Text ''ECE'', Fee_Amount = Number 5000, Fee_Paid = Number 2000,
          Balance = Number 3000, Due_Date = Text ''2025-03-10'',
          Email = Text ''ravi@example.com'', Fee_Paid_On = Text []\<rparr>] ! 1) = Number 3000"
    and set0: "\<not> is_empty (Fee_Paid_On ([\<lparr>Name = Text ''Asha'', Mobile_Number = Text ''9876543210'', Year = Text ''2'',
          Dept = Text ''CSE'', Fee_Amount = Number 5000, Fee_Paid = Number 5000,
          Balance = Number 0, Due_Date = NaN,
          Email = Text ''asha@example.com'', Fee_Paid_On = Text ''2024-12-01''\<rparr>, \<lparr>Name = Text ''Ravi'', Mobile_Number = Text ''9123456780'', Year = Text ''3'',
          Dept = Text ''ECE'', Fee_Amount = Number 5000, Fee_Paid = Number 2000,
          Balance = Number 3000, Due_Date = Text ''2025-03-10'',
          Email = Text ''ravi@example.com'', Fee_Paid_On = NaN\<rparr>] ! 0))"
    by (simp_all add: is_empty_def)
  have "Fee_Paid_On ([\<lparr>Name = Text ''Asha'', Mobile_Number = Text ''9876543210'', Year = Text ''2'',
          Dept = Text ''CSE'', Fee_Amount = Number 5000, Fee_Paid = Number 5000,
          Balance = Number 0, Due_Date = Text [],
          Email = Text ''asha@example.com'', Fee_Paid_On = Text ''2024-12-01''\<rparr>, \<lparr>Name = Text ''Ravi'', Mobile_Number = Text ''9123456780'', Year = Text ''3'',
          Dept = Text ''ECE'', Fee_Amount = Number 5000, Fee_Paid = Number 2000,
          Balance = Number 3000, Due_Date = Text ''2025-03-10'',
          Email = Text ''ravi@example.com'', Fee_Paid_On = Text []\<rparr>] ! 0) = Fee_Paid_On ([\<lparr>Name = Text ''Asha'', Mobile_Number = Text ''9876543210'', Year = Text ''2'',
          Dept = Text ''CSE'', Fee_Amount = Number 5000, Fee_Paid = Number 5000,
          Balance = Number 0, Due_Date = NaN,
          Email = Text ''asha@example.com'', Fee_Paid_On = Text ''2024-12-01''\<rparr>, \<lparr>Name = Text ''Ravi'', Mobile_Number = Text ''9123456780'', Year = Text ''3'',
          Dept = Text ''ECE'', Fee_Amount = Number 5000, Fee_Paid = Number 2000,
          Balance = Number 3000, Due_Date = Text ''2025-03-10'',
          Email = Text ''ravi@example.com'', Fee_Paid_On = NaN\<rparr>] ! 0)"
    using recompute_frame [OF run, of 0] b0 set0 by simp
  moreover have "Due_Date ([\<lparr>Name = Text ''Asha'', Mobile_Number = Text ''9876543210'', Year = Text ''2'',
          Dept = Text ''CSE'', Fee_Amount = Number 5000, Fee_Paid = Number 5000,
          Balance = Number 0, Due_Date = Text [],
          Email = Text ''asha@example.com'', Fee_Paid_On = Text ''2024-12-01''\<rparr>, \<lparr>Name = Text ''Ravi'', Mobile_Number = Text ''9123456780'', Year = Text ''3'',
          Dept = Text ''ECE'', Fee_Amount = Number 5000, Fee_Paid = Number 2000,
          Balance = Number 3000, Due_Date = Text ''2025-03-10'',
          Email = Text ''ravi@example.com'', Fee_Paid_On = Text []\<rparr>] ! 1) = Due_Date ([\<lparr>Name = Text ''Asha'', Mobile_Number = Text ''9876543210'', Year = Text ''2'',
          Dept = Text ''CSE'', Fee_Amount = Number 5000, Fee_Paid = Number 5000,
          Balance = Number 0, Due_Date = NaN,
          Email = Text ''asha@example.com'', Fee_Paid_On = Text ''2024-12-01''\<rparr>, \<lparr>Name = Text ''Ravi'', Mobile_Number = Text ''9123456780'', Year = Text ''3'',
          Dept = Text ''ECE'', Fee_Amount = Number 5000, Fee_Paid = Number 2000,
          Balance = Number 3000, Due_Date = Text ''2025-03-10'',
          Email = Text ''ravi@example.com'', Fee_Paid_On = NaN\<rparr>] ! 1)"
    using recompute_frame [OF run, of 1] b1 by simp
  ultimately show ?thesis
    using run b0 b1 set0 by simp
qed





text \<open>
  C10. When recompute completes, the table has as many records as before, in the same
  order, and Name, Mobile Number, Year, Dept and Email of every record are as they
  were: column by column, these five columns of the output are those of the input.
\<close>

theorem recompute_preserves_text_columns:
  assumes "recalculate_business_rules num ovf today df = Inr out"
  shows "length out = length df
       \<and> map Name out = map Name df
       \<and> map Mobile_Number out = map Mobile_Number df
       \<and> map Year out = map Year df
       \<and> map Dept out = map Dept df
       \<and> map Email out = map Email df"
proof -
  from assms obtain amts paids where
    la: "length amts = length df" and lp: "length paids = length df" and
    out: "out = map (\<lambda>(r, a, p). recalculate_row today r a p) (zip df (zip amts paids))"
    by (rule recalculate_results)
  have "map f out = map f df"
    if "\<And>r a p. f (recalculate_row today r a p) = f r" for f :: "student \<Rightarrow> cell"
    using la lp that unfolding out by (intro nth_equalityI) simp_all
  then show ?thesis
    using recalculate_length [OF assms] by (simp add: recalculate_row_text_fields)
qed

theorem recompute_preserves_text_columns_witness:
  "recalculate_business_rules read_numeric_column least_int64 ''2025-01-15'' [\<lparr>Name = Text ''Asha'', Mobile_Number = Text ''9876543210'', Year = Text ''2'',
          Dept = Text ''CSE'', Fee_Amount = Number 5000, Fee_Paid = Number 5000,
          Balance = Number 0, Due_Date = NaN,
          Email = Text ''asha@example.com'', Fee_Paid_On = Text ''2024-12-01''\<rparr>, \<lparr>Name = Text ''Ravi'', Mobile_Number = Text ''9123456780'', Year = Text ''3'',
          Dept = Text ''ECE'', Fee_Amount = Number 5000, Fee_Paid = Number 2000,
          Balance = Number 3000, Due_Date = Text ''2025-03-10'',
          Email = Text ''ravi@example.com'', Fee_Paid_On = NaN\<rparr>] = Inr [\<lparr>Name = Text ''Asha'', Mobile_Number = Text ''9876543210'', Year = Text ''2'',
          Dept = Text ''CSE'', Fee_Amount = Number 5000, Fee_Paid = Number 5000,
          Balance = Number 0, Due_Date = Text [],
          Email = Text ''asha@example.com'', Fee_Paid_On = Text ''2024-12-01''\<rparr>, \<lparr>Name = Text ''Ravi'', Mobile_Number = Text ''9123456780'', Year = Text ''3'',
          Dept = Text ''ECE'', Fee_Amount = Number 5000, Fee_Paid = Number 2000,
          Balance = Number 3000, Due_Date = Text ''2025-03-10'',
          Email = Text ''ravi@example.com'', Fee_Paid_On = Text []\<rparr>]
   \<and> length [\<lparr>Name = Text ''Asha'', Mobile_Number = Text ''9876543210'', Year = Text ''2'',
          Dept = Text ''CSE'', Fee_Amount = Number 5000, Fee_Paid = Number 5000,
          Balance = Number 0, Due_Date = Text [],
          Email = Text ''asha@example.com'', Fee_Paid_On = Text ''2024-12-01''\<rparr>, \<lparr>Name = Text ''Ravi'', Mobile_Number = Text ''9123456780'', Year = Text ''3'',
          Dept = Text ''ECE'', Fee_Amount = Number 5000, Fee_Paid = Number 2000,
          Balance = Number 3000, Due_Date = Text ''2025-03-10'',
          Email = Text ''ravi@example.com'', Fee_Paid_On = Text []\<rparr>] = length [\<lparr>Name = Text ''Asha'', Mobile_Number = Text ''9876543210'', Year = Text ''2'',
          Dept = Text ''CSE'', Fee_Amount = Number 5000, Fee_Paid = Number 5000,
          Balance = Number 0, Due_Date = NaN,
          Email = Text ''asha@example.com'', Fee_Paid_On = Text ''2024-12-01''\<rparr>, \<lparr>Name = Text ''Ravi'', Mobile_Number = Text ''9123456780'', Year = Text ''3'',
          Dept = Text ''ECE'', Fee_Amount = Number 5000, Fee_Paid = Number 2000,
          Balance = Number 3000, Due_Date = Text ''2025-03-10'',
          Email = Text ''ravi@example.com'', Fee_Paid_On = NaN\<rparr>]
   \<and> map Name [\<lparr>Name = Text ''Asha'', Mobile_Number = Text ''9876543210'', Year = Text ''2'',
          Dept = Text ''CSE'', Fee_Amount = Number 5000, Fee_Paid = Number 5000,
          Balance = Number 0, Due_Date = Text [],
          Email = Text ''asha@example.com'', Fee_Paid_On = Text ''2024-12-01''\<rparr>, \<lparr>Name = Text ''Ravi'', Mobile_Number = Text ''9123456780'', Year = Text ''3'',
          Dept = Text ''ECE'', Fee_Amount = Number 5000, Fee_Paid = Number 2000,
          Balance = Number 3000, Due_Date = Text ''2025-03-10'',
          Email = Text ''ravi@example.com'', Fee_Paid_On = Text []\<rparr>] = map Name [\<lparr>Name = Text ''Asha'', Mobile_Number = Text ''9876543210'', Year = Text ''2'',
          Dept = Text ''CSE'', Fee_Amount = Number 5000, Fee_Paid = Number 5000,
          Balance = Number 0, Due_Date = NaN,
          Email = Text ''asha@example.com'', Fee_Paid_On = Text ''2024-12-01''\<rparr>, \<lparr>Name = Text ''Ravi'', Mobile_Number = Text ''9123456780'', Year = Text ''3'',
          Dept = Text ''ECE'', Fee_Amount = Number 5000, Fee_Paid = Number 2000,
          Balance = Number 3000, Due_Date = Text ''2025-03-10'',
          Email = Text ''ravi@example.com'', Fee_Paid_On = NaN\<rparr>]
   \<and> map Mobile_Number [\<lparr>Name = Text ''Asha'', Mobile_Number = Text ''9876543210'', Year = Text ''2'',
          Dept = Text ''CSE'', Fee_Amount = Number 5000, Fee_Paid = Number 5000,
          Balance = Number 0, Due_Date = Text [],
          Email = Text ''asha@example.com'', Fee_Paid_On = Text ''2024-12-01''\<rparr>, \<lparr>Name = Text ''Ravi'', Mobile_Number = Text ''9123456780'', Year = Text ''3'',
          Dept = Text ''ECE'', Fee_Amount = Number 5000, Fee_Paid = Number 2000,
          Balance = Number 3000, Due_Date = Text ''2025-03-10'',
          Email = Text ''ravi@example.com'', Fee_Paid_On = Text []\<rparr>] = map Mobile_Number [\<lparr>Name = Text ''Asha'', Mobile_Number = Text ''9876543210'', Year = Text ''2'',
          Dept = Text ''CSE'', Fee_Amount = Number 5000, Fee_Paid = Number 5000,
          Balance = Number 0, Due_Date = NaN,
          Email = Text ''asha@example.com'', Fee_Paid_On = Text ''2024-12-01''\<rparr>, \<lparr>Name = Text ''Ravi'', Mobile_Number = Text ''9123456780'', Year = Text ''3'',
          Dept = Text ''ECE'', Fee_Amount = Number 5000, Fee_Paid = Number 2000,
          Balance = Number 3000, Due_Date = Text ''2025-03-10'',
          Email = Text ''ravi@example.com'', Fee_Paid_On = NaN\<rparr>]
   \<and> map Year [\<lparr>Name = Text ''Asha'', Mobile_Number = Text ''9876543210'', Year = Text ''2'',
          Dept = Text ''CSE'', Fee_Amount = Number 5000, Fee_Paid = Number 5000,
          Balance = Number 0, Due_Date = Text [],
          Email = Text ''asha@example.com'', Fee_Paid_On = Text ''2024-12-01''\<rparr>, \<lparr>Name = Text ''Ravi'', Mobile_Number = Text ''9123456780'', Year = Text ''3'',
          Dept = Text ''ECE'', Fee_Amount = Number 5000, Fee_Paid = Number 2000,
          Balance = Number 3000, Due_Date = Text ''2025-03-10'',
          Email = Text ''ravi@example.com'', Fee_Paid_On = Text []\<rparr>] = map Year [\<lparr>Name = Text ''Asha'', Mobile_Number = Text ''9876543210'', Year = Text ''2'',
          Dept = Text ''CSE'', Fee_Amount = Number 5000, Fee_Paid = Number 5000,
          Balance = Number 0, Due_Date = NaN,
          Email = Text ''asha@example.com'', Fee_Paid_On = Text ''2024-12-01''\<rparr>, \<lparr>Name = Text ''Ravi'', Mobile_Number = Text ''9123456780'', Year = Text ''3'',
          Dept = Text ''ECE'', Fee_Amount = Number 5000, Fee_Paid = Number 2000,
          Balance = Number 3000, Due_Date = Text ''2025-03-10'',
          Email = Text ''ravi@example.com'', Fee_Paid_On = NaN\<rparr>]
   \<and> map Dept [\<lparr>Name = Text ''Asha'', Mobile_Number = Text ''9876543210'', Year = Text ''2'',
          Dept = Text ''CSE'', Fee_Amount = Number 5000, Fee_Paid = Number 5000,
          Balance = Number 0, Due_Date = Text [],
          Email = Text ''asha@example.com'', Fee_Paid_On = Text ''2024-12-01''\<rparr>, \<lparr>Name = Text ''Ravi'', Mobile_Number = Text ''9123456780'', Year = Text ''3'',
          Dept = Text ''ECE'', Fee_Amount = Number 5000, Fee_Paid = Number 2000,
          Balance = Number 3000, Due_Date = Text ''2025-03-10'',
          Email = Text ''ravi@example.com'', Fee_Paid_On = Text []\<rparr>] = map Dept [\<lparr>Name = Text ''Asha'', Mobile_Number = Text ''9876543210'', Year = Text ''2'',
          Dept = Text ''CSE'', Fee_Amount = Number 5000, Fee_Paid = Number 5000,
          Balance = Number 0, Due_Date = NaN,
          Email = Text ''asha@example.com'', Fee_Paid_On = Text ''2024-12-01''\<rparr>, \<lparr>Name = Text ''Ravi'', Mobile_Number = Text ''9123456780'', Year = Text ''3'',
          Dept = Text ''ECE'', Fee_Amount = Number 5000, Fee_Paid = Number 2000,
          Balance = Number 3000, Due_Date = Text ''2025-03-10'',
          Email = Text ''ravi@example.com'', Fee_Paid_On = NaN\<rparr>]
   \<and> map Email [\<lparr>Name = Text ''Asha'', Mobile_Number = Text ''9876543210'', Year = Text ''2'',
          Dept = Text ''CSE'', Fee_Amount = Number 5000, Fee_Paid = Number 5000,
          Balance = Number 0, Due_Date = Text [],
          Email = Text ''asha@example.com'', Fee_Paid_On = Text ''2024-12-01''\<rparr>, \<lparr>Name = Text ''Ravi'', Mobile_Number = Text ''9123456780'', Year = Text ''3'',
          Dept = Text ''ECE'', Fee_Amount = Number 5000, Fee_Paid = Number 2000,
          Balance = Number 3000, Due_Date = Text ''2025-03-10'',
          Email = Text ''ravi@example.com'', Fee_Paid_On = Text []\<rparr>] = map Email [\<lparr>Name = Text ''Asha'', Mobile_Number = Text ''9876543210'', Year = Text ''2'',
          Dept = Text ''CSE'', Fee_Amount = Number 5000, Fee_Paid = Number 5000,
          Balance = Number 0, Due_Date = NaN,
          Email = Text ''asha@example.com'', Fee_Paid_On = Text ''2024-12-01''\<rparr>, \<lparr>Name = Text ''Ravi'', Mobile_Number = Text ''9123456780'', Year = Text ''3'',
          Dept = Text ''ECE'', Fee_Amount = Number 5000, Fee_Paid = Number 2000,
          Balance = Number 3000, Due_Date = Text ''2025-03-10'',
          Email = Text ''ravi@example.com'', Fee_Paid_On = NaN\<rparr>]"
proof -
  have run: "recalculate_business_rules read_numeric_column least_int64 ''2025-01-15'' [\<lparr>Name = Text ''Asha'', Mobile_Number = Text ''9876543210'', Year = Text ''2'',
          Dept = Text ''CSE'', Fee_Amount = Number 5000, Fee_Paid = Number 5000,
          Balance = Number 0, Due_Date = NaN,
          Email = Text ''asha@example.com'', Fee_Paid_On = Text ''2024-12-01''\<rparr>, \<lparr>Name = Text ''Ravi'', Mobile_Number = Text ''9123456780'', Year = Text ''3'',
          Dept = Text ''ECE'', Fee_Amount = Number 5000, Fee_Paid = Number 2000,
          Balance = Number 3000, Due_Date = Text ''2025-03-10'',
          Email = Text ''ravi@example.com'', Fee_Paid_On = NaN\<rparr>] = Inr [\<lparr>Name = Text ''Asha'', Mobile_Number = Text ''9876543210'', Year = Text ''2'',
          Dept = Text ''CSE'', Fee_Amount = Number 5000, Fee_Paid = Number 5000,
          Balance = Number 0, Due_Date = Text [],
          Email = Text ''asha@example.com'', Fee_Paid_On = Text ''2024-12-01''\<rparr>, \<lparr>Name = Text ''Ravi'', Mobile_Number = Text ''9123456780'', Year = Text ''3'',
          Dept = Text ''ECE'', Fee_Amount = Number 5000, Fee_Paid = Number 2000,
          Balance = Number 3000, Due_Date = Text ''2025-03-10'',
          Email = Text ''ravi@example.com'', Fee_Paid_On = Text []\<rparr>]"
    by (simp add: recalculate_business_rules_def to_numeric_def is_int64_def wrap64_def recalculate_row_def read_numeric_column_def read_decimal_def is_digit_def digit_value_def trunc_def)
  from recompute_preserves_text_columns [OF run] run show ?thesis
    by blast
qed

text \<open>
  C2 at a record that is fully paid and whose Fee Paid On is missing (an empty cell of
  the spreadsheet): the missing value is truthy, so the date is not filled in, and the
  record ends with Balance 0 and an empty Fee Paid On.
\<close>

theorem recompute_leaves_missing_paid_on:
  "recalculate_business_rules read_numeric_column least_int64 ''2025-01-15'' [\<lparr>Name = Text ''Asha'', Mobile_Number = Text ''9876543210'', Year = Text ''2'',
          Dept = Text ''CSE'', Fee_Amount = Number 5000, Fee_Paid = Number 5000,
          Balance = Number 0, Due_Date = NaN,
          Email = Text ''asha@example.com'', Fee_Paid_On = NaN\<rparr>] = Inr [\<lparr>Name = Text ''Asha'', Mobile_Number = Text ''9876543210'', Year = Text ''2'',
          Dept = Text ''CSE'', Fee_Amount = Number 5000, Fee_Paid = Number 5000,
          Balance = Number 0, Due_Date = Text [],
          Email = Text ''asha@example.com'', Fee_Paid_On = NaN\<rparr>]
   \<and> Balance (\<lparr>Name = Text ''Asha'', Mobile_Number = Text ''9876543210'', Year = Text ''2'',
          Dept = Text ''CSE'', Fee_Amount = Number 5000, Fee_Paid = Number 5000,
          Balance = Number 0, Due_Date = Text [],
          Email = Text ''asha@example.com'', Fee_Paid_On = NaN\<rparr>) = Number 0
   \<and> Fee_Paid_On (\<lparr>Name = Text ''Asha'', Mobile_Number = Text ''9876543210'', Year = Text ''2'',
          Dept = Text ''CSE'', Fee_Amount = Number 5000, Fee_Paid = Number 5000,
          Balance = Number 0, Due_Date = Text [],
          Email = Text ''asha@example.com'', Fee_Paid_On = NaN\<rparr>) = NaN
   \<and> is_empty NaN"
  by (simp add: recalculate_business_rules_def to_numeric_def is_int64_def wrap64_def recalculate_row_def is_empty_def)

text \<open>
  What does hold of the paid-date rules: for a record whose Fee Paid On is not missing,
  and a non-empty current date, the two equivalences of C2 hold after recompute.
\<close>

lemma recompute_paid_on_rules_when_present:
  assumes "recalculate_business_rules num ovf today df = Inr out" and "i < length df"
    and "today \<noteq> []" and "\<not> isna (Fee_Paid_On (df ! i))"
  shows "(Balance (out ! i) = Number 0
           \<longleftrightarrow> is_empty (Due_Date (out ! i)) \<and> \<not> is_empty (Fee_Paid_On (out ! i)))
       \<and> ((\<exists>b. Balance (out ! i) = Number b \<and> 0 < b) \<longleftrightarrow> is_empty (Fee_Paid_On (out ! i)))"
proof -
  from assms(1,2) obtain amts paids where
    row: "out ! i = recalculate_row today (df ! i) (amts ! i) (paids ! i)"
    by (rule recalculate_nth)
  let ?r = "df ! i"
  let ?d = "wrap64 (amts ! i - paids ! i)"
  show ?thesis
  proof (cases "?d \<le> 0")
    case True
    then have "Fee_Paid_On (out ! i)
        = (if truthy (Fee_Paid_On ?r) then Fee_Paid_On ?r else Text today)"
      by (simp add: row recalculate_row_paid_on)
    then have "\<not> is_empty (Fee_Paid_On (out ! i))"
      using assms(3,4) by (simp add: is_empty_def)
    moreover have "Due_Date (out ! i) = Text []"
      using True by (simp add: row recalculate_row_due_date)
    moreover have "Balance (out ! i) = Number 0"
      using True by (simp add: row recalculate_row_amounts max_def)
    ultimately show ?thesis
      by (simp add: is_empty_def)
  next
    case False
    then have "Fee_Paid_On (out ! i) = Text []"
      by (simp add: row recalculate_row_paid_on)
    moreover have "Balance (out ! i) = Number ?d"
      using False by (simp add: row recalculate_row_amounts max_def)
    ultimately show ?thesis
      using False by (simp add: is_empty_def)
  qed
qed

text \<open>
  Two instances of the column conversion. A whole number above 2^53 that shares its
  column with an unreadable cell passes through a float and is stored rounded; a column
  with an infinite entry makes recompute raise.
\<close>

lemma conversion_rounds_large_amount:
  "astype_int least_int64 (fillna (to_numeric read_numeric_column
      [Number 9007199254740993, Text ''n/a''])) = Inr [9007199254740992, 0]"
  by (simp add: to_numeric_def read_numeric_column_def read_decimal_def is_digit_def
      digit_value_def is_int64_def round_float_def Let_def trunc_def)

lemma recompute_raises_on_non_finite:
  assumes "to_numeric num (map Fee_Amount df) = Float_column fs" and "Inf \<in> set fs"
  shows "recalculate_business_rules num ovf today df = Inl IntCastingNaNError"
proof -
  have "\<not> list_all finite_entry (map (\<lambda>v. case v of Nan \<Rightarrow> Fin 0 | _ \<Rightarrow> v) fs)"
    using assms(2) by (auto simp: list_all_iff intro!: bexI [of _ Inf])
  then show ?thesis
    using assms(1) by (simp add: recalculate_business_rules_def)
qed

section \<open>Properties of search\<close>

text \<open>
  On a keyword without the wildcard, the pattern match is the search for a substring.
\<close>

lemma match_here_plain: "CHR ''.'' \<notin> set pat \<Longrightarrow> match_here pat s = prefix pat s"
  by (induction pat s rule: match_here.induct) auto

lemma re_search_plain: "CHR ''.'' \<notin> set pat \<Longrightarrow> re_search pat s = sublist pat s"
proof (induction s)
  case Nil
  then show ?case by (cases pat) simp_all
next
  case (Cons c cs)
  then show ?case by (simp add: match_here_plain sublist_Cons_right)
qed

lemma plain_no_dot: "list_all (\<lambda>c. \<not> is_meta c) kw \<Longrightarrow> CHR ''.'' \<notin> set kw"
  by (auto simp: list_all_iff is_meta_def)

lemma plain_in_fragment: "list_all (\<lambda>c. \<not> is_meta c) kw \<Longrightarrow> in_fragment kw"
  by (auto simp: list_all_iff in_fragment_def)

lemma search_mask_plain:
  assumes "list_all (\<lambda>c. \<not> is_meta c) kw"
  shows "search_mask kw r = (\<exists>c \<in> set (cells r). sublist kw (lower (py_str c)))"
  using assms by (simp add: search_mask_def list_ex_iff re_search_plain plain_no_dot)

text \<open>
  C6, as the code has it. The keyword is the content of the search box, stripped of
  surrounding whitespace and lower-cased. When that keyword is empty, the view is the
  full table, unchanged and in order. When it is non-empty and has no regular-expression
  metacharacter, the view is exactly the records, in table order, for which at least one
  of the ten cells' string, lower-cased, contains the keyword as a substring.
\<close>

theorem search_plain_keyword:
  assumes "selected_name st = Some name" and "files st name = Some (path, df)"
  shows "(lower (strip text) = []
            \<longrightarrow> apply_search text st = Inr (st\<lparr>current_df_view := Some df\<rparr>))
       \<and> (lower (strip text) \<noteq> [] \<and> list_all (\<lambda>c. \<not> is_meta c) (lower (strip text))
            \<longrightarrow> apply_search text st =
                  Inr (st\<lparr>current_df_view :=
                     Some (filter (\<lambda>r. \<exists>c \<in> set (cells r).
                                     sublist (lower (strip text)) (lower (py_str c))) df)\<rparr>))"
proof -
  have "apply_search text st = Inr (st\<lparr>current_df_view := Some df\<rparr>)"
    if "lower (strip text) = []"
    using assms that by (simp add: apply_search_def)
  moreover have "apply_search text st =
      Inr (st\<lparr>current_df_view :=
         Some (filter (\<lambda>r. \<exists>c \<in> set (cells r).
                         sublist (lower (strip text)) (lower (py_str c))) df)\<rparr>)"
    if ne: "lower (strip text) \<noteq> []" and pl: "list_all (\<lambda>c. \<not> is_meta c) (lower (strip text))"
  proof -
    have "search_mask (lower (strip text)) = (\<lambda>r. \<exists>c \<in> set (cells r).
                         sublist (lower (strip text)) (lower (py_str c)))"
      using search_mask_plain [OF pl] by (intro ext) simp
    then show ?thesis
      using assms ne plain_in_fragment [OF pl] by (simp add: apply_search_def)
  qed
  ultimately show ?thesis by blast
qed

theorem search_plain_keyword_witness:
  "(let st = \<lparr>files = [''a.xlsx'' \<mapsto> (''/tmp/a.xlsx'', [\<lparr>Name = Text ''Asha'', Mobile_Number = Text ''9876543210'', Year = Text ''2'',
          Dept = Text ''CSE'', Fee_Amount = Number 5000, Fee_Paid = Number 2000,
          Balance = Number 3000, Due_Date = Text ''2025-03-10'',
          Email = Text ''asha@example.com'', Fee_Paid_On = Text []\<rparr>,
          \<lparr>Name = Text ''John'', Mobile_Number = Text ''9123456780'', Year = Text ''3'',
          Dept = Text ''ECE'', Fee_Amount = Number 4000, Fee_Paid = Number 4000,
          Balance = Number 0, Due_Date = Text [],
          Email = Text ''j@example.com'', Fee_Paid_On = Text ''2025-01-15''\<rparr>])],
         selected_name = Some ''a.xlsx'', current_df_view = None\<rparr>
    in selected_name st = Some ''a.xlsx''
       \<and> lower (strip '' JOHN '') = ''john''
       \<and> list_all (\<lambda>c. \<not> is_meta c) ''john''
       \<and> apply_search '' JOHN '' st = Inr (st\<lparr>current_df_view := Some [\<lparr>Name = Text ''John'', Mobile_Number = Text ''9123456780'', Year = Text ''3'',
          Dept = Text ''ECE'', Fee_Amount = Number 4000, Fee_Paid = Number 4000,
          Balance = Number 0, Due_Date = Text [],
          Email = Text ''j@example.com'', Fee_Paid_On = Text ''2025-01-15''\<rparr>]\<rparr>)
       \<and> lower (strip []) = []
       \<and> apply_search [] st = Inr (st\<lparr>current_df_view := Some [\<lparr>Name = Text ''Asha'', Mobile_Number = Text ''9876543210'', Year = Text ''2'',
          Dept = Text ''CSE'', Fee_Amount = Number 5000, Fee_Paid = Number 2000,
          Balance = Number 3000, Due_Date = Text ''2025-03-10'',
          Email = Text ''asha@example.com'', Fee_Paid_On = Text []\<rparr>, \<lparr>Name = Text ''John'', Mobile_Number = Text ''9123456780'', Year = Text ''3'',
          Dept = Text ''ECE'', Fee_Amount = Number 4000, Fee_Paid = Number 4000,
          Balance = Number 0, Due_Date = Text [],
          Email = Text ''j@example.com'', Fee_Paid_On = Text ''2025-01-15''\<rparr>]\<rparr>))"
proof -
  let ?st = "\<lparr>files = [''a.xlsx'' \<mapsto> (''/tmp/a.xlsx'', [\<lparr>Name = Text ''Asha'', Mobile_Number = Text ''9876543210'', Year = Text ''2'',
          Dept = Text ''CSE'', Fee_Amount = Number 5000, Fee_Paid = Number 2000,
          Balance = Number 3000, Due_Date = Text ''2025-03-10'',
          Email = Text ''asha@example.com'', Fee_Paid_On = Text []\<rparr>,
          \<lparr>Name = Text ''John'', Mobile_Number = Text ''9123456780'', Year = Text ''3'',
          Dept = Text ''ECE'', Fee_Amount = Number 4000, Fee_Paid = Number 4000,
          Balance = Number 0, Due_Date = Text [],
          Email = Text ''j@example.com'', Fee_Paid_On = Text ''2025-01-15''\<rparr>])],
         selected_name = Some ''a.xlsx'', current_df_view = None\<rparr>"
  have kw: "lower (strip '' JOHN '') = ''john''" and kw0: "lower (strip []) = []"
    by (simp_all add: lower_def strip_def is_space_def lower_char_def)
  have pl: "list_all (\<lambda>c. \<not> is_meta c) ''john''"
    by (simp add: is_meta_def)
  have sel: "selected_name ?st = Some ''a.xlsx''"
    and fl: "files ?st ''a.xlsx'' = Some (''/tmp/a.xlsx'', [\<lparr>Name = Text ''Asha'', Mobile_Number = Text ''9876543210'', Year = Text ''2'',
          Dept = Text ''CSE'', Fee_Amount = Number 5000, Fee_Paid = Number 2000,
          Balance = Number 3000, Due_Date = Text ''2025-03-10'',
          Email = Text ''asha@example.com'', Fee_Paid_On = Text []\<rparr>, \<lparr>Name = Text ''John'', Mobile_Number = Text ''9123456780'', Year = Text ''3'',
          Dept = Text ''ECE'', Fee_Amount = Number 4000, Fee_Paid = Number 4000,
          Balance = Number 0, Due_Date = Text [],
          Email = Text ''j@example.com'', Fee_Paid_On = Text ''2025-01-15''\<rparr>])"
    by simp_all
  have pick: "filter (\<lambda>r. \<exists>c \<in> set (cells r). sublist ''john'' (lower (py_str c)))
      [\<lparr>Name = Text ''Asha'', Mobile_Number = Text ''9876543210'', Year = Text ''2'',
          Dept = Text ''CSE'', Fee_Amount = Number 5000, Fee_Paid = Number 2000,
          Balance = Number 3000, Due_Date = Text ''2025-03-10'',
          Email = Text ''asha@example.com'', Fee_Paid_On = Text []\<rparr>, \<lparr>Name = Text ''John'', Mobile_Number = Text ''9123456780'', Year = Text ''3'',
          Dept = Text ''ECE'', Fee_Amount = Number 4000, Fee_Paid = Number 4000,
          Balance = Number 0, Due_Date = Text [],
          Email = Text ''j@example.com'', Fee_Paid_On = Text ''2025-01-15''\<rparr>] = [\<lparr>Name = Text ''John'', Mobile_Number = Text ''9123456780'', Year = Text ''3'',
          Dept = Text ''ECE'', Fee_Amount = Number 4000, Fee_Paid = Number 4000,
          Balance = Number 0, Due_Date = Text [],
          Email = Text ''j@example.com'', Fee_Paid_On = Text ''2025-01-15''\<rparr>]"
    by (simp add: cells_def lower_def lower_char_def str_int_def sublist_Cons_right)
  have "apply_search '' JOHN '' ?st = Inr (?st\<lparr>current_df_view := Some [\<lparr>Name = Text ''John'', Mobile_Number = Text ''9123456780'', Year = Text ''3'',
          Dept = Text ''ECE'', Fee_Amount = Number 4000, Fee_Paid = Number 4000,
          Balance = Number 0, Due_Date = Text [],
          Email = Text ''j@example.com'', Fee_Paid_On = Text ''2025-01-15''\<rparr>]\<rparr>)"
    using search_plain_keyword [OF sel fl, of "'' JOHN ''"] kw pl pick by simp
  moreover have "apply_search [] ?st = Inr (?st\<lparr>current_df_view := Some [\<lparr>Name = Text ''Asha'', Mobile_Number = Text ''9876543210'', Year = Text ''2'',
          Dept = Text ''CSE'', Fee_Amount = Number 5000, Fee_Paid = Number 2000,
          Balance = Number 3000, Due_Date = Text ''2025-03-10'',
          Email = Text ''asha@example.com'', Fee_Paid_On = Text []\<rparr>, \<lparr>Name = Text ''John'', Mobile_Number = Text ''9123456780'', Year = Text ''3'',
          Dept = Text ''ECE'', Fee_Amount = Number 4000, Fee_Paid = Number 4000,
          Balance = Number 0, Due_Date = Text [],
          Email = Text ''j@example.com'', Fee_Paid_On = Text ''2025-01-15''\<rparr>]\<rparr>)"
    using search_plain_keyword [OF sel fl, of "[]"] kw0 by simp
  ultimately show ?thesis
    using kw kw0 pl sel by (simp add: Let_def)
qed

text \<open>
  C6 as stated fails: a keyword of one space is not empty, and no cell of the record
  contains a space, yet the search returns the record, because the keyword is stripped
  before it is compared.
\<close>

theorem search_blank_keyword_returns_all:
  "apply_search '' '' \<lparr>files = [''a.xlsx'' \<mapsto> (''/tmp/a.xlsx'', [\<lparr>Name = Text ''Asha'', Mobile_Number = Text ''9876543210'', Year = Text ''2'',
          Dept = Text ''CSE'', Fee_Amount = Number 5000, Fee_Paid = Number 2000,
          Balance = Number 3000, Due_Date = Text ''2025-03-10'',
          Email = Text ''asha@example.com'', Fee_Paid_On = Text []\<rparr>])],
         selected_name = Some ''a.xlsx'', current_df_view = None\<rparr>
     = Inr (\<lparr>files = [''a.xlsx'' \<mapsto> (''/tmp/a.xlsx'', [\<lparr>Name = Text ''Asha'', Mobile_Number = Text ''9876543210'', Year = Text ''2'',
          Dept = Text ''CSE'', Fee_Amount = Number 5000, Fee_Paid = Number 2000,
          Balance = Number 3000, Due_Date = Text ''2025-03-10'',
          Email = Text ''asha@example.com'', Fee_Paid_On = Text []\<rparr>])],
         selected_name = Some ''a.xlsx'', current_df_view = None\<rparr>\<lparr>current_df_view := Some [\<lparr>Name = Text ''Asha'', Mobile_Number = Text ''9876543210'', Year = Text ''2'',
          Dept = Text ''CSE'', Fee_Amount = Number 5000, Fee_Paid = Number 2000,
          Balance = Number 3000, Due_Date = Text ''2025-03-10'',
          Email = Text ''asha@example.com'', Fee_Paid_On = Text []\<rparr>]\<rparr>)
   \<and> CHR '' '' \<notin> set (concat (map (\<lambda>c. lower (py_str c)) (cells (\<lparr>Name = Text ''Asha'', Mobile_Number = Text ''9876543210'', Year = Text ''2'',
          Dept = Text ''CSE'', Fee_Amount = Number 5000, Fee_Paid = Number 2000,
          Balance = Number 3000, Due_Date = Text ''2025-03-10'',
          Email = Text ''asha@example.com'', Fee_Paid_On = Text []\<rparr>))))"
  by (simp add: apply_search_def lower_def strip_def is_space_def cells_def lower_char_def
      str_int_def)

text \<open>
  The keyword is read as a regular expression: a keyword of one dot matches every
  non-empty cell, so the record is shown although none of its cells contains a dot.
\<close>

lemma search_dot_matches_any:
  "apply_search ''.''
     \<lparr>files = [''a.xlsx'' \<mapsto> (''/tmp/a.xlsx'',
         [\<lparr>Name = Text ''Asha'', Mobile_Number = Text ''9876543210'', Year = Text ''2'',
           Dept = Text ''CSE'', Fee_Amount = Number 5000, Fee_Paid = Number 2000,
           Balance = Number 3000, Due_Date = Text ''2025-03-10'',
           Email = Text [], Fee_Paid_On = Text []\<rparr>])],
      selected_name = Some ''a.xlsx'', current_df_view = None\<rparr>
   = Inr \<lparr>files = [''a.xlsx'' \<mapsto> (''/tmp/a.xlsx'',
         [\<lparr>Name = Text ''Asha'', Mobile_Number = Text ''9876543210'', Year = Text ''2'',
           Dept = Text ''CSE'', Fee_Amount = Number 5000, Fee_Paid = Number 2000,
           Balance = Number 3000, Due_Date = Text ''2025-03-10'',
           Email = Text [], Fee_Paid_On = Text []\<rparr>])],
      selected_name = Some ''a.xlsx'',
      current_df_view = Some
         [\<lparr>Name = Text ''Asha'', Mobile_Number = Text ''9876543210'', Year = Text ''2'',
           Dept = Text ''CSE'', Fee_Amount = Number 5000, Fee_Paid = Number 2000,
           Balance = Number 3000, Due_Date = Text ''2025-03-10'',
           Email = Text [], Fee_Paid_On = Text []\<rparr>]\<rparr>
   \<and> CHR ''.'' \<notin> set (concat (map (\<lambda>c. lower (py_str c)) (cells
         \<lparr>Name = Text ''Asha'', Mobile_Number = Text ''9876543210'', Year = Text ''2'',
           Dept = Text ''CSE'', Fee_Amount = Number 5000, Fee_Paid = Number 2000,
           Balance = Number 3000, Due_Date = Text ''2025-03-10'',
           Email = Text [], Fee_Paid_On = Text []\<rparr>)))"
  by (simp add: apply_search_def lower_def strip_def is_space_def cells_def lower_char_def
      str_int_def in_fragment_def is_meta_def search_mask_def)

section \<open>Properties of the date filter\<close>

lemma mask_and_all_true:
  "length m = n \<Longrightarrow> mask_and (replicate n True) m = m"
  by (induction m arbitrary: n) (auto simp: mask_and_def)

lemma mask_and_map:
  "mask_and (map f ps) (map g ps) = map (\<lambda>p. f p \<and> g p) ps"
  by (induction ps) (auto simp: mask_and_def)

lemma select_rows_all:
  "select_rows df (replicate (length df) True) = df"
  by (induction df) (auto simp: select_rows_def)

lemma select_rows_map:
  "length ps = length df \<Longrightarrow>
   select_rows df (map f ps) = map fst (filter (\<lambda>(r, p). f p) (zip df ps))"
  by (induction df ps rule: list_induct2') (auto simp: select_rows_def)

lemma month_is_iff: "month_is m = (\<lambda>p. \<exists>d. p = Some d \<and> month d = m)"
  by (auto simp: month_is_def fun_eq_iff split: option.splits)

lemma year_is_iff: "year_is y = (\<lambda>p. \<exists>d. p = Some d \<and> year d = y)"
  by (auto simp: year_is_def fun_eq_iff split: option.splits)

text \<open>
  C7. With no month (\<open>All\<close>) and no year, the date filter shows the full table. With a
  month, a year or both, it shows exactly the records, in table order, whose Due Date
  parses as a date and has that month and that year; a record whose Due Date does not
  parse (an empty one too) is left out as soon as a constraint is active.
\<close>

theorem date_filter_keeps_matching:
  assumes "selected_name st = Some name" and "files st name = Some (path, df)"
    and "to_datetime (map Due_Date df) = Some parsed" and "length parsed = length df"
    and "mon = ''All'' \<or> py_int mon = Some m"
    and "strip yr = [] \<or> py_int (strip yr) = Some y"
  shows "(mon = ''All'' \<and> strip yr = []
            \<longrightarrow> apply_date_filter to_datetime py_int mon yr st
                  = Inr (st\<lparr>current_df_view := Some df\<rparr>))
       \<and> apply_date_filter to_datetime py_int mon yr st
           = Inr (st\<lparr>current_df_view := Some (map fst (filter
                (\<lambda>(r, p). (mon \<noteq> ''All'' \<longrightarrow> (\<exists>d. p = Some d \<and> month d = m))
                         \<and> (strip yr \<noteq> [] \<longrightarrow> (\<exists>d. p = Some d \<and> year d = y)))
                (zip df parsed)))\<rparr>)"
proof -
  let ?keep = "\<lambda>p. (mon \<noteq> ''All'' \<longrightarrow> (\<exists>d. p = Some d \<and> month d = m))
                   \<and> (strip yr \<noteq> [] \<longrightarrow> (\<exists>d. p = Some d \<and> year d = y))"
  have len: "length (map f parsed) = length df" for f :: "timestamp option \<Rightarrow> bool"
    using assms(4) by simp
  have run: "apply_date_filter to_datetime py_int mon yr st
      = Inr (st\<lparr>current_df_view := Some (select_rows df (map ?keep parsed))\<rparr>)"
  proof (cases "mon = ''All''")
    case all: True
    show ?thesis
    proof (cases "strip yr = []")
      case True
      have "map ?keep parsed = replicate (length df) True"
        using all True assms(4) by (simp add: map_replicate_const)
      then show ?thesis
        using assms(1-3) all True by (simp add: apply_date_filter_def)
    next
      case False
      then have y: "py_int (strip yr) = Some y" using assms(6) by simp
      show ?thesis
        using assms(1-3) all False y mask_and_all_true [OF len]
        by (simp add: apply_date_filter_def year_is_iff)
    qed
  next
    case some: False
    then have m: "py_int mon = Some m" using assms(5) by simp
    show ?thesis
    proof (cases "strip yr = []")
      case True
      show ?thesis
        using assms(1-3) some True m mask_and_all_true [OF len]
        by (simp add: apply_date_filter_def month_is_iff)
    next
      case False
      then have y: "py_int (strip yr) = Some y" using assms(6) by simp
      show ?thesis
        using assms(1-3) some False m y mask_and_all_true [OF len]
        by (simp add: apply_date_filter_def mask_and_map month_is_iff year_is_iff)
    qed
  qed
  have sel: "select_rows df (map ?keep parsed)
      = map fst (filter (\<lambda>(r, p). ?keep p) (zip df parsed))"
    using assms(4) by (rule select_rows_map)
  have general: "apply_date_filter to_datetime py_int mon yr st
      = Inr (st\<lparr>current_df_view :=
           Some (map fst (filter (\<lambda>(r, p). ?keep p) (zip df parsed)))\<rparr>)"
    unfolding run sel ..
  have full: "apply_date_filter to_datetime py_int mon yr st
      = Inr (st\<lparr>current_df_view := Some df\<rparr>)" if "mon = ''All''" "strip yr = []"
    using assms(1-3) that by (simp add: apply_date_filter_def select_rows_all)
  from general full show ?thesis by blast
qed

theorem date_filter_keeps_matching_witness:
  "(let df = [\<lparr>Name = Text ''Asha'', Mobile_Number = Text ''9876543210'', Year = Text ''2'',
          Dept = Text ''CSE'', Fee_Amount = Number 5000, Fee_Paid = Number 2000,
          Balance = Number 3000, Due_Date = Text ''2025-03-10'',
          Email = Text ''asha@example.com'', Fee_Paid_On = Text []\<rparr>, \<lparr>Name = Text ''Ravi'', Mobile_Number = Text ''9876543210'', Year = Text ''2'',
          Dept = Text ''CSE'', Fee_Amount = Number 6000, Fee_Paid = Number 1000,
          Balance = Number 5000, Due_Date = Text ''2025-04-01'',
          Email = Text ''ravi@example.com'', Fee_Paid_On = Text []\<rparr>, \<lparr>Name = Text ''John'', Mobile_Number = Text ''9876543210'', Year = Text ''2'',
          Dept = Text ''CSE'', Fee_Amount = Number 4000, Fee_Paid = Number 4000,
          Balance = Number 0, Due_Date = Text [],
          Email = Text ''john@example.com'', Fee_Paid_On = Text ''2025-01-15''\<rparr>];
        st = \<lparr>files = [''a.xlsx'' \<mapsto> (''/tmp/a.xlsx'', df)],
               selected_name = Some ''a.xlsx'', current_df_view = None\<rparr>
    in read_iso_dates (map Due_Date df)
         = Some [Some \<lparr>year = 2025, month = 3, day = 10\<rparr>,
                 Some \<lparr>year = 2025, month = 4, day = 1\<rparr>, None]
       \<and> read_decimal ''03'' = Some 3 \<and> read_decimal (strip ''2025'') = Some 2025
       \<and> apply_date_filter read_iso_dates read_decimal ''03'' ''2025'' st
           = Inr (st\<lparr>current_df_view := Some [\<lparr>Name = Text ''Asha'', Mobile_Number = Text ''9876543210'', Year = Text ''2'',
          Dept = Text ''CSE'', Fee_Amount = Number 5000, Fee_Paid = Number 2000,
          Balance = Number 3000, Due_Date = Text ''2025-03-10'',
          Email = Text ''asha@example.com'', Fee_Paid_On = Text []\<rparr>]\<rparr>)
       \<and> apply_date_filter read_iso_dates read_decimal ''All'' [] st
           = Inr (st\<lparr>current_df_view := Some df\<rparr>))"
proof -
  let ?df = "[\<lparr>Name = Text ''Asha'', Mobile_Number = Text ''9876543210'', Year = Text ''2'',
          Dept = Text ''CSE'', Fee_Amount = Number 5000, Fee_Paid = Number 2000,
          Balance = Number 3000, Due_Date = Text ''2025-03-10'',
          Email = Text ''asha@example.com'', Fee_Paid_On = Text []\<rparr>, \<lparr>Name = Text ''Ravi'', Mobile_Number = Text ''9876543210'', Year = Text ''2'',
          Dept = Text ''CSE'', Fee_Amount = Number 6000, Fee_Paid = Number 1000,
          Balance = Number 5000, Due_Date = Text ''2025-04-01'',
          Email = Text ''ravi@example.com'', Fee_Paid_On = Text []\<rparr>, \<lparr>Name = Text ''John'', Mobile_Number = Text ''9876543210'', Year = Text ''2'',
          Dept = Text ''CSE'', Fee_Amount = Number 4000, Fee_Paid = Number 4000,
          Balance = Number 0, Due_Date = Text [],
          Email = Text ''john@example.com'', Fee_Paid_On = Text ''2025-01-15''\<rparr>]"
  let ?st = "\<lparr>files = [''a.xlsx'' \<mapsto> (''/tmp/a.xlsx'', ?df)],
               selected_name = Some ''a.xlsx'', current_df_view = None\<rparr>"
  let ?parsed = "[Some \<lparr>year = 2025, month = 3, day = 10\<rparr>,
                 Some \<lparr>year = 2025, month = 4, day = 1\<rparr>, None]"
  have sel: "selected_name ?st = Some ''a.xlsx''"
    and fl: "files ?st ''a.xlsx'' = Some (''/tmp/a.xlsx'', ?df)"
    by simp_all
  have parsed: "read_iso_dates (map Due_Date ?df) = Some ?parsed"
    by (simp add: read_iso_dates_def read_iso_date_def is_digit_def digit_value_def
        days_in_month_def)
  have len: "length ?parsed = length ?df"
    by simp
  have m: "read_decimal ''03'' = Some 3" and y: "read_decimal (strip ''2025'') = Some 2025"
    and y0: "strip [] = []" and ys: "strip ''2025'' \<noteq> []"
    by (simp_all add: read_decimal_def is_digit_def digit_value_def strip_def is_space_def)
  have "apply_date_filter read_iso_dates read_decimal ''03'' ''2025'' ?st
      = Inr (?st\<lparr>current_df_view := Some [\<lparr>Name = Text ''Asha'', Mobile_Number = Text ''9876543210'', Year = Text ''2'',
          Dept = Text ''CSE'', Fee_Amount = Number 5000, Fee_Paid = Number 2000,
          Balance = Number 3000, Due_Date = Text ''2025-03-10'',
          Email = Text ''asha@example.com'', Fee_Paid_On = Text []\<rparr>]\<rparr>)"
    using date_filter_keeps_matching [where st = ?st and name = "''a.xlsx''"
        and path = "''/tmp/a.xlsx''" and df = ?df and to_datetime = read_iso_dates
        and parsed = ?parsed and mon = "''03''" and py_int = read_decimal and m = 3
        and yr = "''2025''" and y = 2025, OF sel fl parsed len]
      m y ys by simp
  moreover have "apply_date_filter read_iso_dates read_decimal ''All'' [] ?st
      = Inr (?st\<lparr>current_df_view := Some ?df\<rparr>)"
    using date_filter_keeps_matching [where st = ?st and name = "''a.xlsx''"
        and path = "''/tmp/a.xlsx''" and df = ?df and to_datetime = read_iso_dates
        and parsed = ?parsed and mon = "''All''" and py_int = read_decimal and m = 3
        and yr = "[]" and y = 2025, OF sel fl parsed len]
      y0 by simp
  ultimately show ?thesis
    using parsed m y by (simp add: Let_def)
qed

section \<open>Properties of delete and of the schema check\<close>

lemma drop_row_length: "i < length df \<Longrightarrow> length (drop_row i df) = length df - 1"
  by (auto simp: drop_row_def)

lemma drop_row_nth_before: "j < i \<Longrightarrow> i < length df \<Longrightarrow> drop_row i df ! j = df ! j"
  by (simp add: drop_row_def nth_append)

lemma drop_row_nth_after:
  "i \<le> j \<Longrightarrow> j < length df - 1 \<Longrightarrow> drop_row i df ! j = df ! Suc j"
  by (auto simp: drop_row_def nth_append min_def)

lemma settled_other_day: "d \<noteq> [] \<Longrightarrow> settled d r \<Longrightarrow> settled today r"
  by (auto simp: settled_def split: cell.splits if_splits)

lemma settled_drop_row: "list_all (settled today) df \<Longrightarrow> list_all (settled today) (drop_row i df)"
  by (auto simp: drop_row_def list_all_iff dest: in_set_takeD in_set_dropD)

text \<open>
  C9. Deleting the row at a valid position i removes exactly that record and recomputes
  what is left: when that recompute completes, the table is one shorter, the records
  before i keep their positions, the records after i move up by one, and each remaining
  record is what the row rule of recompute makes of it; when it raises, so does the
  delete. On a stored table, which is a result of recompute, the recompute completes
  and changes nothing, so the new table is the old one without row i.
\<close>

theorem delete_removes_row:
  assumes "selected_name st = Some name" and "files st name = Some (path, df)"
    and "0 \<le> i" and "i < int (length df)"
  shows "(\<forall>out. recalculate_business_rules num ovf today (take (nat i) df @ drop (nat i + 1) df)
                 = Inr out
            \<longrightarrow> delete_selected num ovf today i st
                  = Inr (st\<lparr>files := (files st)(name \<mapsto> (path, out)),
                             current_df_view := Some out\<rparr>)
              \<and> length out = length df - 1
              \<and> (\<forall>j. j < nat i
                    \<longrightarrow> (\<exists>a p. out ! j = recalculate_row today (df ! j) a p))
              \<and> (\<forall>j. nat i \<le> j \<and> j < length df - 1
                    \<longrightarrow> (\<exists>a p. out ! j = recalculate_row today (df ! (j + 1)) a p)))
       \<and> (\<forall>e. recalculate_business_rules num ovf today (take (nat i) df @ drop (nat i + 1) df)
                 = Inl e
            \<longrightarrow> delete_selected num ovf today i st = Inl e)
       \<and> (\<forall>d df0. d \<noteq> [] \<and> recalculate_business_rules num ovf d df0 = Inr df
            \<longrightarrow> delete_selected num ovf today i st
                  = Inr (st\<lparr>files := (files st)(name \<mapsto>
                                (path, take (nat i) df @ drop (nat i + 1) df)),
                             current_df_view := Some (take (nat i) df @ drop (nat i + 1) df)\<rparr>))"
proof -
  let ?k = "nat i"
  let ?rest = "take ?k df @ drop (?k + 1) df"
  have k: "?k < length df"
    using assms(3,4) by simp
  have rest: "drop_row ?k df = ?rest"
    by (simp add: drop_row_def)
  have run: "delete_selected num ovf today i st
      = (case recalculate_business_rules num ovf today ?rest of
           Inl e \<Rightarrow> Inl e
         | Inr out \<Rightarrow> Inr (st\<lparr>files := (files st)(name \<mapsto> (path, out)),
                               current_df_view := Some out\<rparr>))"
    using assms by (simp add: delete_selected_def rest)
  have len: "length ?rest = length df - 1"
    using drop_row_length [OF k] by (simp only: rest)
  have good: "length out = length df - 1
      \<and> (\<forall>j. j < ?k \<longrightarrow> (\<exists>a p. out ! j = recalculate_row today (df ! j) a p))
      \<and> (\<forall>j. ?k \<le> j \<and> j < length df - 1
            \<longrightarrow> (\<exists>a p. out ! j = recalculate_row today (df ! (j + 1)) a p))"
    if out: "recalculate_business_rules num ovf today ?rest = Inr out" for out
  proof -
    have row: "\<exists>a p. out ! j = recalculate_row today (?rest ! j) a p" if "j < length ?rest" for j
      using recalculate_nth [OF out that] by metis
    have "\<exists>a p. out ! j = recalculate_row today (df ! j) a p" if "j < ?k" for j
    proof -
      have "j < length ?rest" using that k len by simp
      moreover have "?rest ! j = df ! j"
        using drop_row_nth_before [OF that k] by (simp only: rest)
      ultimately show ?thesis using row by metis
    qed
    moreover have "\<exists>a p. out ! j = recalculate_row today (df ! (j + 1)) a p"
      if "?k \<le> j" "j < length df - 1" for j
    proof -
      have "j < length ?rest" using that len by simp
      moreover have "?rest ! j = df ! (j + 1)"
        using drop_row_nth_after [OF that] by (simp only: rest Suc_eq_plus1)
      ultimately show ?thesis using row by metis
    qed
    ultimately show ?thesis
      using recalculate_length [OF out] len by simp
  qed
  have stored: "recalculate_business_rules num ovf today ?rest = Inr ?rest"
    if "d \<noteq> []" "recalculate_business_rules num ovf d df0 = Inr df" for d df0
  proof -
    have "list_all (settled d) df"
      using that(2) by (rule settled_results)
    then have "list_all (settled today) df"
      using settled_other_day [OF that(1)] by (auto simp: list_all_iff)
    then have "list_all (settled today) ?rest"
      using settled_drop_row [of today df ?k] by (simp only: rest)
    then show ?thesis
      by (rule settled_table_fixed)
  qed
  show ?thesis
  proof (intro conjI allI impI)
    fix out
    assume out: "recalculate_business_rules num ovf today ?rest = Inr out"
    show "delete_selected num ovf today i st
        = Inr (st\<lparr>files := (files st)(name \<mapsto> (path, out)), current_df_view := Some out\<rparr>)"
      using run out by simp
    show "length out = length df - 1"
      using good [OF out] by simp
  next
    fix out j
    assume out: "recalculate_business_rules num ovf today ?rest = Inr out" and "j < ?k"
    then show "\<exists>a p. out ! j = recalculate_row today (df ! j) a p"
      using good [OF out] by simp
  next
    fix out j
    assume out: "recalculate_business_rules num ovf today ?rest = Inr out"
      and "?k \<le> j \<and> j < length df - 1"
    then show "\<exists>a p. out ! j = recalculate_row today (df ! (j + 1)) a p"
      using good [OF out] by simp
  next
    fix e
    assume "recalculate_business_rules num ovf today ?rest = Inl e"
    then show "delete_selected num ovf today i st = Inl e"
      using run by simp
  next
    fix d df0
    assume "d \<noteq> [] \<and> recalculate_business_rules num ovf d df0 = Inr df"
    then have "recalculate_business_rules num ovf today ?rest = Inr ?rest"
      using stored by blast
    then show "delete_selected num ovf today i st
        = Inr (st\<lparr>files := (files st)(name \<mapsto> (path, ?rest)),
                   current_df_view := Some ?rest\<rparr>)"
      using run by simp
  qed
qed

theorem delete_removes_row_witness:
  "(let df = [\<lparr>Name = Text ''Asha'', Mobile_Number = Text ''9876543210'', Year = Text ''2'',
          Dept = Text ''CSE'', Fee_Amount = Number 5000, Fee_Paid = Number 2000,
          Balance = Number 3000, Due_Date = Text ''2025-03-10'',
          Email = Text ''asha@example.com'', Fee_Paid_On = Text []\<rparr>, \<lparr>Name = Text ''Ravi'', Mobile_Number = Text ''9876543210'', Year = Text ''2'',
          Dept = Text ''CSE'', Fee_Amount = Number 6000, Fee_Paid = Number 1000,
          Balance = Number 5000, Due_Date = Text ''2025-04-01'',
          Email = Text ''ravi@example.com'', Fee_Paid_On = Text []\<rparr>, \<lparr>Name = Text ''John'', Mobile_Number = Text ''9876543210'', Year = Text ''2'',
          Dept = Text ''CSE'', Fee_Amount = Number 4000, Fee_Paid = Number 4000,
          Balance = Number 0, Due_Date = Text [],
          Email = Text ''john@example.com'', Fee_Paid_On = Text ''2025-01-15''\<rparr>];
        st = \<lparr>files = [''a.xlsx'' \<mapsto> (''/tmp/a.xlsx'', df)],
               selected_name = Some ''a.xlsx'', current_df_view = Some df\<rparr>
    in (0::int) \<le> 1 \<and> 1 < int (length df)
       \<and> ''2025-01-10'' \<noteq> []
       \<and> recalculate_business_rules read_numeric_column least_int64 ''2025-01-10'' df = Inr df
       \<and> delete_selected read_numeric_column least_int64 ''2025-01-15'' 1 st
           = Inr (st\<lparr>files := (files st)(''a.xlsx'' \<mapsto> (''/tmp/a.xlsx'', [\<lparr>Name = Text ''Asha'', Mobile_Number = Text ''9876543210'', Year = Text ''2'',
          Dept = Text ''CSE'', Fee_Amount = Number 5000, Fee_Paid = Number 2000,
          Balance = Number 3000, Due_Date = Text ''2025-03-10'',
          Email = Text ''asha@example.com'', Fee_Paid_On = Text []\<rparr>, \<lparr>Name = Text ''John'', Mobile_Number = Text ''9876543210'', Year = Text ''2'',
          Dept = Text ''CSE'', Fee_Amount = Number 4000, Fee_Paid = Number 4000,
          Balance = Number 0, Due_Date = Text [],
          Email = Text ''john@example.com'', Fee_Paid_On = Text ''2025-01-15''\<rparr>])),
                      current_df_view := Some [\<lparr>Name = Text ''Asha'', Mobile_Number = Text ''9876543210'', Year = Text ''2'',
          Dept = Text ''CSE'', Fee_Amount = Number 5000, Fee_Paid = Number 2000,
          Balance = Number 3000, Due_Date = Text ''2025-03-10'',
          Email = Text ''asha@example.com'', Fee_Paid_On = Text []\<rparr>, \<lparr>Name = Text ''John'', Mobile_Number = Text ''9876543210'', Year = Text ''2'',
          Dept = Text ''CSE'', Fee_Amount = Number 4000, Fee_Paid = Number 4000,
          Balance = Number 0, Due_Date = Text [],
          Email = Text ''john@example.com'', Fee_Paid_On = Text ''2025-01-15''\<rparr>]\<rparr>))"
proof -
  let ?df = "[\<lparr>Name = Text ''Asha'', Mobile_Number = Text ''9876543210'', Year = Text ''2'',
          Dept = Text ''CSE'', Fee_Amount = Number 5000, Fee_Paid = Number 2000,
          Balance = Number 3000, Due_Date = Text ''2025-03-10'',
          Email = Text ''asha@example.com'', Fee_Paid_On = Text []\<rparr>, \<lparr>Name = Text ''Ravi'', Mobile_Number = Text ''9876543210'', Year = Text ''2'',
          Dept = Text ''CSE'', Fee_Amount = Number 6000, Fee_Paid = Number 1000,
          Balance = Number 5000, Due_Date = Text ''2025-04-01'',
          Email = Text ''ravi@example.com'', Fee_Paid_On = Text []\<rparr>, \<lparr>Name = Text ''John'', Mobile_Number = Text ''9876543210'', Year = Text ''2'',
          Dept = Text ''CSE'', Fee_Amount = Number 4000, Fee_Paid = Number 4000,
          Balance = Number 0, Due_Date = Text [],
          Email = Text ''john@example.com'', Fee_Paid_On = Text ''2025-01-15''\<rparr>]"
  let ?st = "\<lparr>files = [''a.xlsx'' \<mapsto> (''/tmp/a.xlsx'', ?df)],
               selected_name = Some ''a.xlsx'', current_df_view = Some ?df\<rparr>"
  have sel: "selected_name ?st = Some ''a.xlsx''"
    and fl: "files ?st ''a.xlsx'' = Some (''/tmp/a.xlsx'', ?df)"
    and lo: "(0::int) \<le> 1" and hi: "1 < int (length ?df)"
    and day: "''2025-01-10'' \<noteq> []"
    by simp_all
  have stored: "recalculate_business_rules read_numeric_column least_int64 ''2025-01-10'' ?df
      = Inr ?df"
    by (simp add: recalculate_business_rules_def to_numeric_def is_int64_def wrap64_def recalculate_row_def)
  have rest: "take (nat 1) ?df @ drop (nat 1 + 1) ?df = [\<lparr>Name = Text ''Asha'', Mobile_Number = Text ''9876543210'', Year = Text ''2'',
          Dept = Text ''CSE'', Fee_Amount = Number 5000, Fee_Paid = Number 2000,
          Balance = Number 3000, Due_Date = Text ''2025-03-10'',
          Email = Text ''asha@example.com'', Fee_Paid_On = Text []\<rparr>, \<lparr>Name = Text ''John'', Mobile_Number = Text ''9876543210'', Year = Text ''2'',
          Dept = Text ''CSE'', Fee_Amount = Number 4000, Fee_Paid = Number 4000,
          Balance = Number 0, Due_Date = Text [],
          Email = Text ''john@example.com'', Fee_Paid_On = Text ''2025-01-15''\<rparr>]"
    by simp
  from delete_removes_row [OF sel fl lo hi, of read_numeric_column least_int64 "''2025-01-15''"]
    day stored
  have "delete_selected read_numeric_column least_int64 ''2025-01-15'' 1 ?st
      = Inr (?st\<lparr>files := (files ?st)(''a.xlsx'' \<mapsto>
                    (''/tmp/a.xlsx'', take (nat 1) ?df @ drop (nat 1 + 1) ?df)),
                 current_df_view := Some (take (nat 1) ?df @ drop (nat 1 + 1) ?df)\<rparr>)"
    by blast
  then have "delete_selected read_numeric_column least_int64 ''2025-01-15'' 1 ?st
      = Inr (?st\<lparr>files := (files ?st)(''a.xlsx'' \<mapsto> (''/tmp/a.xlsx'', [\<lparr>Name = Text ''Asha'', Mobile_Number = Text ''9876543210'', Year = Text ''2'',
          Dept = Text ''CSE'', Fee_Amount = Number 5000, Fee_Paid = Number 2000,
          Balance = Number 3000, Due_Date = Text ''2025-03-10'',
          Email = Text ''asha@example.com'', Fee_Paid_On = Text []\<rparr>, \<lparr>Name = Text ''John'', Mobile_Number = Text ''9876543210'', Year = Text ''2'',
          Dept = Text ''CSE'', Fee_Amount = Number 4000, Fee_Paid = Number 4000,
          Balance = Number 0, Due_Date = Text [],
          Email = Text ''john@example.com'', Fee_Paid_On = Text ''2025-01-15''\<rparr>])),
                 current_df_view := Some [\<lparr>Name = Text ''Asha'', Mobile_Number = Text ''9876543210'', Year = Text ''2'',
          Dept = Text ''CSE'', Fee_Amount = Number 5000, Fee_Paid = Number 2000,
          Balance = Number 3000, Due_Date = Text ''2025-03-10'',
          Email = Text ''asha@example.com'', Fee_Paid_On = Text []\<rparr>, \<lparr>Name = Text ''John'', Mobile_Number = Text ''9876543210'', Year = Text ''2'',
          Dept = Text ''CSE'', Fee_Amount = Number 4000, Fee_Paid = Number 4000,
          Balance = Number 0, Due_Date = Text [],
          Email = Text ''john@example.com'', Fee_Paid_On = Text ''2025-01-15''\<rparr>]\<rparr>)"
    by (simp only: rest)
  then show ?thesis
    using stored by (simp add: Let_def)
qed

lemma those_student_of_cells:
  "list_all (\<lambda>row. length row = 10) rs \<Longrightarrow> \<exists>tbl. those (map student_of_cells rs) = Some tbl"
proof (induction rs)
  case Nil
  then show ?case by simp
next
  case (Cons row rs)
  then have "length row = 10" by simp
  then obtain a b c d e f g h i j where "row = [a, b, c, d, e, f, g, h, i, j]"
    by (auto simp: length_Suc_conv numeral_eq_Suc)
  with Cons show ?case by auto
qed

lemma recalculate_errors:
  "recalculate_business_rules num ovf today df = Inl e \<Longrightarrow> e = IntCastingNaNError \<or> e = ValueError"
proof -
  have cast: "e = IntCastingNaNError" if "astype_int ovf c = Inl e" for c
    using that by (cases c) (auto split: if_splits)
  assume "recalculate_business_rules num ovf today df = Inl e"
  then show ?thesis
    by (auto simp: recalculate_business_rules_def dest: cast split: sum.splits if_splits)
qed

text \<open>
  C5. A file is rejected as not in the strict format exactly when its header differs
  from the ten canonical names in their order. With the canonical header (and rows of
  ten cells) the table is recomputed and, when that completes, stored under the base
  name of the file; an exception of the recompute ends the call. The instances below
  reject a header of three columns, a header with two names swapped and a header with
  one name in lower case.
\<close>

theorem schema_validation:
  assumes "path \<noteq> []"
  shows "(open_file num ovf today path (Some fr) st = Inl Invalid_format)
           = (columns fr \<noteq> [''Name'', ''Mobile Number'', ''Year'', ''Dept'', ''Fee Amount'',
                              ''Fee Paid'', ''Balance'', ''Due Date'', ''Email'', ''Fee Paid On''])
       \<and> (columns fr = [''Name'', ''Mobile Number'', ''Year'', ''Dept'', ''Fee Amount'',
                         ''Fee Paid'', ''Balance'', ''Due Date'', ''Email'', ''Fee Paid On'']
            \<and> list_all (\<lambda>row. length row = 10) (rows fr)
          \<longrightarrow> (\<exists>tbl. those (map student_of_cells (rows fr)) = Some tbl
                 \<and> (\<forall>df. recalculate_business_rules num ovf today tbl = Inr df
                      \<longrightarrow> (\<exists>st'. open_file num ovf today path (Some fr) st = Inr st'
                             \<and> files st' (basename path) = Some (path, df)))
                 \<and> (\<forall>e. recalculate_business_rules num ovf today tbl = Inl e
                      \<longrightarrow> open_file num ovf today path (Some fr) st = Inl e)))"
proof -
  have reject: "(open_file num ovf today path (Some fr) st = Inl Invalid_format)
      = (columns fr \<noteq> STRICT_COLUMNS)"
    using assms
    by (auto simp: open_file_def on_select_file_def Let_def
        dest: recalculate_errors split: option.splits if_splits sum.splits)
  have accept: "\<exists>tbl. those (map student_of_cells (rows fr)) = Some tbl
      \<and> (\<forall>df. recalculate_business_rules num ovf today tbl = Inr df
            \<longrightarrow> (\<exists>st'. open_file num ovf today path (Some fr) st = Inr st'
                   \<and> files st' (basename path) = Some (path, df)))
      \<and> (\<forall>e. recalculate_business_rules num ovf today tbl = Inl e
            \<longrightarrow> open_file num ovf today path (Some fr) st = Inl e)"
    if hdr: "columns fr = STRICT_COLUMNS" and shape: "list_all (\<lambda>row. length row = 10) (rows fr)"
  proof -
    from those_student_of_cells [OF shape]
    obtain tbl where tbl: "those (map student_of_cells (rows fr)) = Some tbl" ..
    show ?thesis
      using assms hdr tbl
      by (intro exI [of _ tbl]) (auto simp: open_file_def on_select_file_def Let_def)
  qed
  from reject accept show ?thesis
    unfolding STRICT_COLUMNS_def by blast
qed

theorem schema_validation_witness:
  "(let st = \<lparr>files = Map.empty, selected_name = None, current_df_view = None\<rparr>
    in ''/tmp/a.xlsx'' \<noteq> []
       \<and> open_file read_numeric_column least_int64 ''2025-01-15'' ''/tmp/a.xlsx''
            (Some \<lparr>columns = [''Name'', ''Mobile Number'', ''Year''], rows = []\<rparr>) st
           = Inl Invalid_format
       \<and> open_file read_numeric_column least_int64 ''2025-01-15'' ''/tmp/a.xlsx''
            (Some \<lparr>columns = [''Mobile Number'', ''Name'', ''Year'', ''Dept'', ''Fee Amount'',
              ''Fee Paid'', ''Balance'', ''Due Date'', ''Email'', ''Fee Paid On''], rows = []\<rparr>) st
           = Inl Invalid_format
       \<and> open_file read_numeric_column least_int64 ''2025-01-15'' ''/tmp/a.xlsx''
            (Some \<lparr>columns = [''name'', ''Mobile Number'', ''Year'', ''Dept'', ''Fee Amount'',
              ''Fee Paid'', ''Balance'', ''Due Date'', ''Email'', ''Fee Paid On''], rows = []\<rparr>) st
           = Inl Invalid_format
       \<and> list_all (\<lambda>row. length row = 10) [[Text ''Asha'', Text ''9876543210'', Text ''2'', Text ''CSE'', Number 5000,
              Number 2000, NaN, Text ''2025-03-10'', Text ''asha@example.com'', NaN]]
       \<and> those (map student_of_cells [[Text ''Asha'', Text ''9876543210'', Text ''2'', Text ''CSE'', Number 5000,
              Number 2000, NaN, Text ''2025-03-10'', Text ''asha@example.com'', NaN]]) = Some [\<lparr>Name = Text ''Asha'', Mobile_Number = Text ''9876543210'', Year = Text ''2'',
          Dept = Text ''CSE'', Fee_Amount = Number 5000, Fee_Paid = Number 2000,
          Balance = NaN, Due_Date = Text ''2025-03-10'',
          Email = Text ''asha@example.com'', Fee_Paid_On = NaN\<rparr>]
       \<and> recalculate_business_rules read_numeric_column least_int64 ''2025-01-15'' [\<lparr>Name = Text ''Asha'', Mobile_Number = Text ''9876543210'', Year = Text ''2'',
          Dept = Text ''CSE'', Fee_Amount = Number 5000, Fee_Paid = Number 2000,
          Balance = NaN, Due_Date = Text ''2025-03-10'',
          Email = Text ''asha@example.com'', Fee_Paid_On = NaN\<rparr>]
           = Inr [\<lparr>Name = Text ''Asha'', Mobile_Number = Text ''9876543210'', Year = Text ''2'',
          Dept = Text ''CSE'', Fee_Amount = Number 5000, Fee_Paid = Number 2000,
          Balance = Number 3000, Due_Date = Text ''2025-03-10'',
          Email = Text ''asha@example.com'', Fee_Paid_On = Text []\<rparr>]
       \<and> (\<exists>st'. open_file read_numeric_column least_int64 ''2025-01-15'' ''/tmp/a.xlsx''
            (Some \<lparr>columns = [''Name'', ''Mobile Number'', ''Year'', ''Dept'', ''Fee Amount'',
              ''Fee Paid'', ''Balance'', ''Due Date'', ''Email'', ''Fee Paid On''], rows = [[Text ''Asha'', Text ''9876543210'', Text ''2'', Text ''CSE'', Number 5000,
              Number 2000, NaN, Text ''2025-03-10'', Text ''asha@example.com'', NaN]]\<rparr>) st = Inr st'
            \<and> files st' (basename ''/tmp/a.xlsx'') = Some (''/tmp/a.xlsx'', [\<lparr>Name = Text ''Asha'', Mobile_Number = Text ''9876543210'', Year = Text ''2'',
          Dept = Text ''CSE'', Fee_Amount = Number 5000, Fee_Paid = Number 2000,
          Balance = Number 3000, Due_Date = Text ''2025-03-10'',
          Email = Text ''asha@example.com'', Fee_Paid_On = Text []\<rparr>])))"
proof -
  let ?st = "\<lparr>files = Map.empty, selected_name = None, current_df_view = None\<rparr>"
  have p: "''/tmp/a.xlsx'' \<noteq> []"
    by simp
  have r1: "open_file read_numeric_column least_int64 ''2025-01-15'' ''/tmp/a.xlsx''
            (Some \<lparr>columns = [''Name'', ''Mobile Number'', ''Year''], rows = []\<rparr>) ?st
           = Inl Invalid_format"
    using schema_validation [OF p, of read_numeric_column least_int64 "''2025-01-15''"
        "\<lparr>columns = [''Name'', ''Mobile Number'', ''Year''], rows = []\<rparr>" ?st]
    by simp
  have r2: "open_file read_numeric_column least_int64 ''2025-01-15'' ''/tmp/a.xlsx''
            (Some \<lparr>columns = [''Mobile Number'', ''Name'', ''Year'', ''Dept'', ''Fee Amount'',
              ''Fee Paid'', ''Balance'', ''Due Date'', ''Email'', ''Fee Paid On''], rows = []\<rparr>) ?st
           = Inl Invalid_format"
    using schema_validation [OF p, of read_numeric_column least_int64 "''2025-01-15''"
        "\<lparr>columns = [''Mobile Number'', ''Name'', ''Year'', ''Dept'', ''Fee Amount'',
              ''Fee Paid'', ''Balance'', ''Due Date'', ''Email'', ''Fee Paid On''], rows = []\<rparr>" ?st]
    by simp
  have r3: "open_file read_numeric_column least_int64 ''2025-01-15'' ''/tmp/a.xlsx''
            (Some \<lparr>columns = [''name'', ''Mobile Number'', ''Year'', ''Dept'', ''Fee Amount'',
              ''Fee Paid'', ''Balance'', ''Due Date'', ''Email'', ''Fee Paid On''], rows = []\<rparr>) ?st
           = Inl Invalid_format"
    using schema_validation [OF p, of read_numeric_column least_int64 "''2025-01-15''"
        "\<lparr>columns = [''name'', ''Mobile Number'', ''Year'', ''Dept'', ''Fee Amount'',
              ''Fee Paid'', ''Balance'', ''Due Date'', ''Email'', ''Fee Paid On''], rows = []\<rparr>" ?st]
    by simp
  have shape: "list_all (\<lambda>row. length row = 10) [[Text ''Asha'', Text ''9876543210'', Text ''2'', Text ''CSE'', Number 5000,
              Number 2000, NaN, Text ''2025-03-10'', Text ''asha@example.com'', NaN]]"
    by simp
  have tbl: "those (map student_of_cells [[Text ''Asha'', Text ''9876543210'', Text ''2'', Text ''CSE'', Number 5000,
              Number 2000, NaN, Text ''2025-03-10'', Text ''asha@example.com'', NaN]]) = Some [\<lparr>Name = Text ''Asha'', Mobile_Number = Text ''9876543210'', Year = Text ''2'',
          Dept = Text ''CSE'', Fee_Amount = Number 5000, Fee_Paid = Number 2000,
          Balance = NaN, Due_Date = Text ''2025-03-10'',
          Email = Text ''asha@example.com'', Fee_Paid_On = NaN\<rparr>]"
    by simp
  have run: "recalculate_business_rules read_numeric_column least_int64 ''2025-01-15'' [\<lparr>Name = Text ''Asha'', Mobile_Number = Text ''9876543210'', Year = Text ''2'',
          Dept = Text ''CSE'', Fee_Amount = Number 5000, Fee_Paid = Number 2000,
          Balance = NaN, Due_Date = Text ''2025-03-10'',
          Email = Text ''asha@example.com'', Fee_Paid_On = NaN\<rparr>]
           = Inr [\<lparr>Name = Text ''Asha'', Mobile_Number = Text ''9876543210'', Year = Text ''2'',
          Dept = Text ''CSE'', Fee_Amount = Number 5000, Fee_Paid = Number 2000,
          Balance = Number 3000, Due_Date = Text ''2025-03-10'',
          Email = Text ''asha@example.com'', Fee_Paid_On = Text []\<rparr>]"
    by (simp add: recalculate_business_rules_def to_numeric_def is_int64_def wrap64_def recalculate_row_def)
  have "\<exists>st'. open_file read_numeric_column least_int64 ''2025-01-15'' ''/tmp/a.xlsx''
            (Some \<lparr>columns = [''Name'', ''Mobile Number'', ''Year'', ''Dept'', ''Fee Amount'',
              ''Fee Paid'', ''Balance'', ''Due Date'', ''Email'', ''Fee Paid On''], rows = [[Text ''Asha'', Text ''9876543210'', Text ''2'', Text ''CSE'', Number 5000,
              Number 2000, NaN, Text ''2025-03-10'', Text ''asha@example.com'', NaN]]\<rparr>) ?st = Inr st'
            \<and> files st' (basename ''/tmp/a.xlsx'') = Some (''/tmp/a.xlsx'', [\<lparr>Name = Text ''Asha'', Mobile_Number = Text ''9876543210'', Year = Text ''2'',
          Dept = Text ''CSE'', Fee_Amount = Number 5000, Fee_Paid = Number 2000,
          Balance = Number 3000, Due_Date = Text ''2025-03-10'',
          Email = Text ''asha@example.com'', Fee_Paid_On = Text []\<rparr>])"
    using schema_validation [OF p, of read_numeric_column least_int64 "''2025-01-15''"
        "\<lparr>columns = [''Name'', ''Mobile Number'', ''Year'', ''Dept'', ''Fee Amount'',
              ''Fee Paid'', ''Balance'', ''Due Date'', ''Email'', ''Fee Paid On''], rows = [[Text ''Asha'', Text ''9876543210'', Text ''2'', Text ''CSE'', Number 5000,
              Number 2000, NaN, Text ''2025-03-10'', Text ''asha@example.com'', NaN]]\<rparr>" ?st] shape tbl run
    by auto
  then show ?thesis
    using p r1 r2 r3 shape tbl run by (simp add: Let_def)
qed

end
